theory Spec2Isabelle
  imports Main
begin

section \<open>JavaScript values and the runtime\<close>

text \<open>
  The skills are JavaScript modules. Their values are modelled by \<open>jsval\<close>: what
  \<^verbatim>\<open>JSON.parse\<close> can return, plus \<^verbatim>\<open>undefined\<close>, which property access on a
  missing key yields. Numbers are integers (the clock is in whole milliseconds, lifetimes
  in whole seconds, HTTP statuses and message counts are integers); the one non-integer
  number the code can compute from such values, \<^verbatim>\<open>NaN\<close>, is kept in \<open>jsnum\<close>.
\<close>

datatype jsval =
    JUndefined
  | JNull
  | JBool bool
  | JNum int
  | JStr string
  | JArr "jsval list"
  | JObj "(string \<times> jsval) list"

datatype jsnum = Num int | NaN

text \<open>
  Every \<^verbatim>\<open>throw new Error(msg)\<close> of the source is \<open>Error msg\<close>. \<open>TypeError\<close> is
  what the engine raises on a property read of \<^verbatim>\<open>null\<close>/\<^verbatim>\<open>undefined\<close> or a call
  of a missing method, \<open>SyntaxError\<close> what \<^verbatim>\<open>JSON.parse\<close> raises, and
  \<open>NetworkError\<close> a rejected \<^verbatim>\<open>fetch\<close> (DNS, connection refused, timeout).
\<close>

datatype js_error = Error string | TypeError | SyntaxError | NetworkError string

text \<open>Truthiness, as \<^verbatim>\<open>&&\<close>, \<^verbatim>\<open>||\<close>, \<^verbatim>\<open>if\<close> and \<^verbatim>\<open>?:\<close> test it.\<close>

fun truthy :: "jsval \<Rightarrow> bool" where
  "truthy JUndefined = False"
| "truthy JNull = False"
| "truthy (JBool b) = b"
| "truthy (JNum n) = (n \<noteq> 0)"
| "truthy (JStr s) = (s \<noteq> [])"
| "truthy (JArr xs) = True"
| "truthy (JObj kvs) = True"

text \<open>\<^verbatim>\<open>a || b\<close> on values.\<close>

definition js_or :: "jsval \<Rightarrow> jsval \<Rightarrow> jsval" where
  "js_or a b = (if truthy a then a else b)"

text \<open>
  \<^verbatim>\<open>v.k\<close>: a \<open>TypeError\<close> on \<^verbatim>\<open>null\<close> and \<^verbatim>\<open>undefined\<close>, the stored value on an
  object that has the key, \<^verbatim>\<open>undefined\<close> otherwise (none of the keys the skills read is
  a built-in property of a string, number, boolean or array). \<^verbatim>\<open>v?.k\<close> yields
  \<^verbatim>\<open>undefined\<close> where \<^verbatim>\<open>v.k\<close> would raise.
\<close>

fun get_prop :: "jsval \<Rightarrow> string \<Rightarrow> js_error + jsval" where
  "get_prop JUndefined k = Inl TypeError"
| "get_prop JNull k = Inl TypeError"
| "get_prop (JObj kvs) k = Inr (case map_of kvs k of None \<Rightarrow> JUndefined | Some v \<Rightarrow> v)"
| "get_prop v k = Inr JUndefined"

fun opt_get :: "jsval \<Rightarrow> string \<Rightarrow> jsval" where
  "opt_get (JObj kvs) k = (case map_of kvs k of None \<Rightarrow> JUndefined | Some v \<Rightarrow> v)"
| "opt_get v k = JUndefined"

text \<open>Decimal rendering of a number in a template literal.\<close>

fun dec :: "nat \<Rightarrow> string" where
  "dec n = (if n < 10 then [''0123456789'' ! n] else dec (n div 10) @ [''0123456789'' ! (n mod 10)])"

declare dec.simps [simp del]

definition dec_int :: "int \<Rightarrow> string" where
  "dec_int i = (if i < 0 then ''-'' @ dec (nat (- i)) else dec (nat i))"

fun num_str :: "jsnum \<Rightarrow> string" where
  "num_str NaN = ''NaN''"
| "num_str (Num i) = dec_int i"

text \<open>Arithmetic and comparison on numbers: \<^verbatim>\<open>NaN\<close> propagates and compares false.\<close>

fun num_add :: "jsnum \<Rightarrow> jsnum \<Rightarrow> jsnum" where
  "num_add (Num a) (Num b) = Num (a + b)"
| "num_add a b = NaN"

fun num_mul :: "jsnum \<Rightarrow> jsnum \<Rightarrow> jsnum" where
  "num_mul (Num a) (Num b) = Num (a * b)"
| "num_mul a b = NaN"

fun num_gt :: "jsnum \<Rightarrow> jsnum \<Rightarrow> bool" where
  "num_gt (Num a) (Num b) = (a > b)"
| "num_gt a b = False"

fun Math_min :: "jsnum \<Rightarrow> jsnum \<Rightarrow> jsnum" where
  "Math_min (Num a) (Num b) = Num (min a b)"
| "Math_min a b = NaN"

text \<open>
  The built-ins the skills call and whose algorithms are the engine's, not the
  repository's, are parameters of the model: every theorem holds for every runtime.
  \<open>JSON_parse\<close> is \<^verbatim>\<open>JSON.parse\<close> and \<^verbatim>\<open>response.json()\<close> (\<open>None\<close>: the
  \<open>SyntaxError\<close>), \<open>JSON_stringify\<close> is \<^verbatim>\<open>JSON.stringify(v)\<close>, \<open>JSON_pretty\<close> is
  \<^verbatim>\<open>JSON.stringify(v, null, 2)\<close>, \<open>StringToNumber\<close> the numeric value of a string,
  \<open>URLSearchParams\<close> the form encoding of \<^verbatim>\<open>new URLSearchParams({...}).toString()\<close>.
\<close>

datatype regex = RE_style | RE_tag | RE_space

record runtime =
  JSON_parse :: "string \<Rightarrow> jsval option"
  JSON_stringify :: "jsval \<Rightarrow> string"
  JSON_pretty :: "jsval \<Rightarrow> string"
  StringToNumber :: "string \<Rightarrow> jsnum"
  URLSearchParams :: "(string \<times> string) list \<Rightarrow> string"
  encodeURIComponent :: "string \<Rightarrow> string"
  String_replace :: "regex \<Rightarrow> string \<Rightarrow> string \<Rightarrow> string"
  String_trim :: "string \<Rightarrow> string"
  toUpperCase :: "string \<Rightarrow> string"

text \<open>
  \<^verbatim>\<open>String(v)\<close>, as a template literal applies it. An array joins its elements with
  commas, \<^verbatim>\<open>null\<close> and \<^verbatim>\<open>undefined\<close> elements as the empty string.
\<close>

fun join_comma :: "string list \<Rightarrow> string" where
  "join_comma [] = []"
| "join_comma [s] = s"
| "join_comma (s # ss) = s @ '','' @ join_comma ss"

fun ToString :: "jsval \<Rightarrow> string" where
  "ToString JUndefined = ''undefined''"
| "ToString JNull = ''null''"
| "ToString (JBool b) = (if b then ''true'' else ''false'')"
| "ToString (JNum n) = dec_int n"
| "ToString (JStr s) = s"
| "ToString (JArr xs) =
     join_comma (map (\<lambda>x. if x = JNull \<or> x = JUndefined then [] else ToString x) xs)"
| "ToString (JObj kvs) = ''[object Object]''"

text \<open>\<^verbatim>\<open>Number(v)\<close>, as \<^verbatim>\<open>*\<close> and \<^verbatim>\<open>Math.min\<close> apply it.\<close>

fun ToNumber :: "runtime \<Rightarrow> jsval \<Rightarrow> jsnum" where
  "ToNumber rt JUndefined = NaN"
| "ToNumber rt JNull = Num 0"
| "ToNumber rt (JBool b) = Num (if b then 1 else 0)"
| "ToNumber rt (JNum n) = Num n"
| "ToNumber rt (JStr s) = StringToNumber rt s"
| "ToNumber rt v = StringToNumber rt (ToString v)"

section \<open>Environment, network and module state\<close>

text \<open>\<^verbatim>\<open>process.env\<close>: a variable is a string or \<^verbatim>\<open>undefined\<close> (\<open>None\<close>).\<close>

record env =
  AZURE_TENANT_ID :: "string option"
  AZURE_CLIENT_ID :: "string option"
  AZURE_CLIENT_SECRET :: "string option"
  EMAIL_USER_var :: "string option"

definition env_str :: "string option \<Rightarrow> string" where
  "env_str v = (case v of None \<Rightarrow> ''undefined'' | Some s \<Rightarrow> s)"

definition env_set :: "string option \<Rightarrow> bool" where
  "env_set v = (case v of None \<Rightarrow> False | Some s \<Rightarrow> s \<noteq> [])"

record http_request =
  req_url :: string
  req_method :: string
  req_headers :: "(string \<times> string) list"
  req_body :: "string option"

record http_response =
  status :: nat
  statusText :: string
  body_text :: string

text \<open>\<^verbatim>\<open>response.ok\<close>: the status is in the range 200 to 299.\<close>

definition ok :: "http_response \<Rightarrow> bool" where
  "ok r = (200 \<le> status r \<and> status r \<le> 299)"

text \<open>
  The network answers a request with a response or a rejection; the answer may depend on
  everything exchanged before. Reading the body of a response that has arrived
  (\<^verbatim>\<open>response.text()\<close>) does not fail. Each module owns one \<^verbatim>\<open>tokenCache\<close>, assigned
  by its token function only; the model's state holds it together with the log of the
  exchanges \<^verbatim>\<open>fetch\<close> has made, oldest first.
\<close>

type_synonym exchange = "http_request \<times> (js_error + http_response)"
type_synonym network = "exchange list \<Rightarrow> http_request \<Rightarrow> js_error + http_response"

record token_cache =
  token :: jsval
  expiresAt :: jsnum

record world =
  tokenCache :: token_cache
  log :: "exchange list"

definition init_cache :: token_cache where
  "init_cache = \<lparr>token = JNull, expiresAt = Num 0\<rparr>"

definition fetch :: "network \<Rightarrow> world \<Rightarrow> http_request \<Rightarrow> (js_error + http_response) \<times> world" where
  "fetch net w req =
     (let r = net (log w) req in (r, w\<lparr>log := log w @ [(req, r)]\<rparr>))"

text \<open>The cache test both token functions start with.\<close>

definition fresh :: "token_cache \<Rightarrow> int \<Rightarrow> bool" where
  "fresh c now = (truthy (token c) \<and> num_gt (expiresAt c) (Num (now + 60000)))"

text \<open>The object literal assigned to \<^verbatim>\<open>tokenCache\<close> after a successful exchange.\<close>

definition new_cache :: "runtime \<Rightarrow> int \<Rightarrow> jsval \<Rightarrow> jsval \<Rightarrow> token_cache" where
  "new_cache rt now access_token expires_in =
     \<lparr>token = access_token,
      expiresAt = num_add (Num now) (num_mul (ToNumber rt expires_in) (Num 1000))\<rparr>"

section \<open>skills/email-manager\<close>

definition graph_token_request :: "runtime \<Rightarrow> env \<Rightarrow> http_request" where
  "graph_token_request rt e =
     \<lparr>req_url = ''https://login.microsoftonline.com/'' @ env_str (AZURE_TENANT_ID e)
                 @ ''/oauth2/v2.0/token'',
      req_method = ''POST'',
      req_headers = [(''Content-Type'', ''application/x-www-form-urlencoded'')],
      req_body = Some (URLSearchParams rt
        [(''grant_type'', ''client_credentials''),
         (''client_id'', env_str (AZURE_CLIENT_ID e)),
         (''client_secret'', env_str (AZURE_CLIENT_SECRET e)),
         (''scope'', ''https://graph.microsoft.com/.default'')])\<rparr>"

text \<open>
  \<^verbatim>\<open>getGraphToken\<close>, with the clock reading \<open>now\<close> of its first line as an argument.
  It returns the token or the error thrown, and the state it leaves.
\<close>

definition getGraphToken ::
  "runtime \<Rightarrow> env \<Rightarrow> network \<Rightarrow> int \<Rightarrow> world \<Rightarrow> (js_error + jsval) \<times> world" where
  "getGraphToken rt e net now w =
     (if fresh (tokenCache w) now then (Inr (token (tokenCache w)), w)
      else
        (case fetch net w (graph_token_request rt e) of
           (Inl err, w1) \<Rightarrow> (Inl err, w1)
         | (Inr response, w1) \<Rightarrow>
             if \<not> ok response then
               (Inl (Error (''Graph token error: '' @ dec (status response) @ '' - ''
                            @ body_text response)), w1)
             else
               (case JSON_parse rt (body_text response) of
                  None \<Rightarrow> (Inl SyntaxError, w1)
                | Some data \<Rightarrow>
                    (case get_prop data ''access_token'' of
                       Inl err \<Rightarrow> (Inl err, w1)
                     | Inr access_token \<Rightarrow>
                         (case get_prop data ''expires_in'' of
                            Inl err \<Rightarrow> (Inl err, w1)
                          | Inr expires_in \<Rightarrow>
                              (Inr access_token,
                               w1\<lparr>tokenCache := new_cache rt now access_token expires_in\<rparr>))))))"

text \<open>\<^verbatim>\<open>text ? JSON.parse(text) : null\<close>, the last line of the request wrappers.\<close>

definition parse_or_null :: "runtime \<Rightarrow> string \<Rightarrow> js_error + jsval" where
  "parse_or_null rt txt =
     (if txt \<noteq> [] then
        (case JSON_parse rt txt of None \<Rightarrow> Inl SyntaxError | Some v \<Rightarrow> Inr v)
      else Inr JNull)"

definition graph_api_request :: "runtime \<Rightarrow> jsval \<Rightarrow> string \<Rightarrow> string \<Rightarrow> jsval \<Rightarrow> http_request" where
  "graph_api_request rt tok method path body =
     \<lparr>req_url = ''https://graph.microsoft.com/v1.0'' @ path,
      req_method = method,
      req_headers = [(''Authorization'', ''Bearer '' @ ToString tok),
                     (''Content-Type'', ''application/json'')],
      req_body = (if truthy body then Some (JSON_stringify rt body) else None)\<rparr>"

text \<open>
  \<^verbatim>\<open>graphRequest(method, path, body)\<close>; \<open>now\<close> is the clock reading of the
  \<^verbatim>\<open>getGraphToken\<close> call it makes, and a missing \<open>body\<close> is \<open>JUndefined\<close>.
\<close>

definition graphRequest ::
  "runtime \<Rightarrow> env \<Rightarrow> network \<Rightarrow> int \<Rightarrow> string \<Rightarrow> string \<Rightarrow> jsval \<Rightarrow> world
     \<Rightarrow> (js_error + jsval) \<times> world" where
  "graphRequest rt e net now method path body w =
     (case getGraphToken rt e net now w of
        (Inl err, w1) \<Rightarrow> (Inl err, w1)
      | (Inr tok, w1) \<Rightarrow>
          (case fetch net w1 (graph_api_request rt tok method path body) of
             (Inl err, w2) \<Rightarrow> (Inl err, w2)
           | (Inr response, w2) \<Rightarrow>
               if \<not> ok response then
                 (Inl (Error (''Graph API error: '' @ dec (status response) @ '' - ''
                              @ body_text response)), w2)
               else (parse_or_null rt (body_text response), w2)))"

text \<open>
  \<^verbatim>\<open>stripHtml\<close>: three regular-expression replacements and a trim, on a string; any
  other value has no \<^verbatim>\<open>replace\<close> method.
\<close>

definition stripHtml :: "runtime \<Rightarrow> jsval \<Rightarrow> js_error + string" where
  "stripHtml rt html =
     (case html of
        JStr s \<Rightarrow>
          Inr (String_trim rt
                (String_replace rt RE_space
                  (String_replace rt RE_tag
                    (String_replace rt RE_style s []) '' '') '' ''))
      | _ \<Rightarrow> Inl TypeError)"

text \<open>\<^verbatim>\<open>Array.prototype.map\<close> with a callback that may throw: the first throw ends it.\<close>

fun map_err :: "('a \<Rightarrow> js_error + 'b) \<Rightarrow> 'a list \<Rightarrow> js_error + 'b list" where
  "map_err f [] = Inr []"
| "map_err f (x # xs) =
     (case f x of
        Inl err \<Rightarrow> Inl err
      | Inr y \<Rightarrow> (case map_err f xs of Inl err \<Rightarrow> Inl err | Inr ys \<Rightarrow> Inr (y # ys)))"

text \<open>
  \<^verbatim>\<open>formatMessage\<close>. The first read, \<^verbatim>\<open>msg.bodyPreview\<close>, raises when \<open>msg\<close> is
  \<^verbatim>\<open>null\<close> or \<^verbatim>\<open>undefined\<close>; past it the plain reads of \<open>msg\<close> cannot raise and are
  written with \<open>opt_get\<close>.
\<close>

definition formatMessage :: "runtime \<Rightarrow> jsval \<Rightarrow> js_error + jsval" where
  "formatMessage rt msg =
     (case get_prop msg ''bodyPreview'' of
        Inl err \<Rightarrow> Inl err
      | Inr bodyPreview \<Rightarrow>
          (case (if truthy bodyPreview then Inr bodyPreview
                 else (case stripHtml rt (js_or (opt_get (opt_get msg ''body'') ''content'') (JStr []))
                       of Inl err \<Rightarrow> Inl err | Inr s \<Rightarrow> Inr (JStr (take 200 s)))) of
             Inl err \<Rightarrow> Inl err
           | Inr preview \<Rightarrow>
               Inr (JObj
                 [(''id'', opt_get msg ''id''),
                  (''subject'', opt_get msg ''subject''),
                  (''from'', js_or (opt_get (opt_get (opt_get msg ''from'') ''emailAddress'') ''address'')
                                  (JStr ''unknown'')),
                  (''date'', opt_get msg ''receivedDateTime''),
                  (''isRead'', opt_get msg ''isRead''),
                  (''preview'', preview),
                  (''hasAttachments'', opt_get msg ''hasAttachments'')])))"

text \<open>\<^verbatim>\<open>const EMAIL_USER = process.env.EMAIL_USER || "fabio@sebit.cz"\<close>.\<close>

definition EMAIL_USER :: "env \<Rightarrow> string" where
  "EMAIL_USER e =
     (if env_set (EMAIL_USER_var e) then env_str (EMAIL_USER_var e) else ''fabio@sebit.cz'')"

text \<open>\<^verbatim>\<open>const top = Math.min(count || 10, 50)\<close>, in \<^verbatim>\<open>read_inbox\<close> and \<^verbatim>\<open>search_emails\<close>.\<close>

definition top_of :: "runtime \<Rightarrow> jsval \<Rightarrow> jsnum" where
  "top_of rt count = Math_min (ToNumber rt (js_or count (JNum 10))) (Num 50)"

definition read_inbox_path :: "runtime \<Rightarrow> env \<Rightarrow> jsval \<Rightarrow> jsval \<Rightarrow> string" where
  "read_inbox_path rt e count unread_only =
     ''/users/'' @ EMAIL_USER e @ ''/messages?$top='' @ num_str (top_of rt count)
     @ ''&$orderby=receivedDateTime desc&$select=id,subject,from,receivedDateTime,isRead,bodyPreview,hasAttachments''
     @ (if truthy unread_only then ''&$filter=isRead eq false'' else [])"

text \<open>\<^verbatim>\<open>(result.value || []).map(formatMessage)\<close> and the final \<^verbatim>\<open>JSON.stringify\<close>.\<close>

definition format_messages :: "runtime \<Rightarrow> jsval \<Rightarrow> js_error + string" where
  "format_messages rt result =
     (case get_prop result ''value'' of
        Inl err \<Rightarrow> Inl err
      | Inr v \<Rightarrow>
          (case js_or v (JArr []) of
             JArr msgs \<Rightarrow>
               (case map_err (formatMessage rt) msgs of
                  Inl err \<Rightarrow> Inl err
                | Inr messages \<Rightarrow> Inr (JSON_pretty rt (JArr messages)))
           | _ \<Rightarrow> Inl TypeError))"

text \<open>\<^verbatim>\<open>read_inbox({ count, unread_only })\<close>; a missing argument is \<open>JUndefined\<close>.\<close>

definition read_inbox ::
  "runtime \<Rightarrow> env \<Rightarrow> network \<Rightarrow> int \<Rightarrow> jsval \<Rightarrow> jsval \<Rightarrow> world \<Rightarrow> (js_error + string) \<times> world" where
  "read_inbox rt e net now count unread_only w =
     (case graphRequest rt e net now ''GET'' (read_inbox_path rt e count unread_only) JUndefined w of
        (Inl err, w1) \<Rightarrow> (Inl err, w1)
      | (Inr result, w1) \<Rightarrow> (format_messages rt result, w1))"

definition search_emails_path :: "runtime \<Rightarrow> env \<Rightarrow> jsval \<Rightarrow> jsval \<Rightarrow> string" where
  "search_emails_path rt e query count =
     ''/users/'' @ EMAIL_USER e @ ''/messages?$search='' @ [CHR 0x22]
     @ encodeURIComponent rt (ToString query) @ [CHR 0x22]
     @ ''&$top='' @ num_str (top_of rt count)
     @ ''&$select=id,subject,from,receivedDateTime,isRead,bodyPreview,hasAttachments''"

definition search_emails ::
  "runtime \<Rightarrow> env \<Rightarrow> network \<Rightarrow> int \<Rightarrow> jsval \<Rightarrow> jsval \<Rightarrow> world \<Rightarrow> (js_error + string) \<times> world" where
  "search_emails rt e net now query count w =
     (case graphRequest rt e net now ''GET'' (search_emails_path rt e query count) JUndefined w of
        (Inl err, w1) \<Rightarrow> (Inl err, w1)
      | (Inr result, w1) \<Rightarrow> (format_messages rt result, w1))"

text \<open>
  \<^verbatim>\<open>(msg.toRecipients || []).map((r) => r.emailAddress.address)\<close>: each of the two
  reads raises on \<^verbatim>\<open>null\<close> and \<^verbatim>\<open>undefined\<close>.
\<close>

definition recipient_address :: "jsval \<Rightarrow> js_error + jsval" where
  "recipient_address r =
     (case get_prop r ''emailAddress'' of
        Inl err \<Rightarrow> Inl err
      | Inr a \<Rightarrow> get_prop a ''address'')"

definition addresses :: "jsval \<Rightarrow> js_error + jsval" where
  "addresses v =
     (case js_or v (JArr []) of
        JArr rs \<Rightarrow>
          (case map_err recipient_address rs of Inl err \<Rightarrow> Inl err | Inr as \<Rightarrow> Inr (JArr as))
      | _ \<Rightarrow> Inl TypeError)"

text \<open>
  The object \<^verbatim>\<open>formatted\<close> that \<^verbatim>\<open>read_email\<close> builds from the fetched message, its
  properties evaluated in the order of the literal.
\<close>

definition format_email :: "runtime \<Rightarrow> jsval \<Rightarrow> js_error + jsval" where
  "format_email rt msg =
     (case get_prop msg ''id'' of
        Inl err \<Rightarrow> Inl err
      | Inr ident \<Rightarrow>
          (case addresses (opt_get msg ''toRecipients'') of
             Inl err \<Rightarrow> Inl err
           | Inr to_list \<Rightarrow>
               (case addresses (opt_get msg ''ccRecipients'') of
                  Inl err \<Rightarrow> Inl err
                | Inr cc_list \<Rightarrow>
                    (case stripHtml rt (js_or (opt_get (opt_get msg ''body'') ''content'') (JStr [])) of
                       Inl err \<Rightarrow> Inl err
                     | Inr stripped \<Rightarrow>
                         Inr (JObj
                           [(''id'', ident),
                            (''subject'', opt_get msg ''subject''),
                            (''from'', opt_get (opt_get (opt_get msg ''from'') ''emailAddress'') ''address''),
                            (''to'', to_list),
                            (''cc'', cc_list),
                            (''date'', opt_get msg ''receivedDateTime''),
                            (''body'', JStr stripped),
                            (''bodyHtml'', opt_get (opt_get msg ''body'') ''content''),
                            (''hasAttachments'', opt_get msg ''hasAttachments'')])))))"

definition read_email_path :: "env \<Rightarrow> jsval \<Rightarrow> string" where
  "read_email_path e message_id =
     ''/users/'' @ EMAIL_USER e @ ''/messages/'' @ ToString message_id
     @ ''?$select=id,subject,from,toRecipients,ccRecipients,receivedDateTime,isRead,body,hasAttachments''"

definition mark_read_path :: "env \<Rightarrow> jsval \<Rightarrow> string" where
  "mark_read_path e message_id = ''/users/'' @ EMAIL_USER e @ ''/messages/'' @ ToString message_id"

text \<open>
  \<^verbatim>\<open>read_email({ message_id })\<close>. It calls \<^verbatim>\<open>graphRequest\<close> twice, so it reads the
  clock twice: \<open>now1\<close> for the GET, \<open>now2\<close> for the PATCH. The PATCH promise carries
  \<^verbatim>\<open>.catch(() => {})\<close>: whatever it settles to is dropped, and only the state it leaves
  is kept.
\<close>

definition read_email ::
  "runtime \<Rightarrow> env \<Rightarrow> network \<Rightarrow> int \<Rightarrow> int \<Rightarrow> jsval \<Rightarrow> world \<Rightarrow> (js_error + string) \<times> world" where
  "read_email rt e net now1 now2 message_id w =
     (case graphRequest rt e net now1 ''GET'' (read_email_path e message_id) JUndefined w of
        (Inl err, w1) \<Rightarrow> (Inl err, w1)
      | (Inr msg, w1) \<Rightarrow>
          (case format_email rt msg of
             Inl err \<Rightarrow> (Inl err, w1)
           | Inr formatted \<Rightarrow>
               (case graphRequest rt e net now2 ''PATCH'' (mark_read_path e message_id)
                       (JObj [(''isRead'', JBool True)]) w1 of
                  (marked, w2) \<Rightarrow> (Inr (JSON_pretty rt formatted), w2))))"

section \<open>skills/fabric-api\<close>

definition powerbi_token_request :: "runtime \<Rightarrow> env \<Rightarrow> http_request" where
  "powerbi_token_request rt e =
     \<lparr>req_url = ''https://login.microsoftonline.com/'' @ env_str (AZURE_TENANT_ID e)
                 @ ''/oauth2/v2.0/token'',
      req_method = ''POST'',
      req_headers = [(''Content-Type'', ''application/x-www-form-urlencoded'')],
      req_body = Some (URLSearchParams rt
        [(''grant_type'', ''client_credentials''),
         (''client_id'', env_str (AZURE_CLIENT_ID e)),
         (''client_secret'', env_str (AZURE_CLIENT_SECRET e)),
         (''scope'', ''https://analysis.windows.net/powerbi/api/.default'')])\<rparr>"

text \<open>\<^verbatim>\<open>getAccessToken\<close> of skills/fabric-api/index.js.\<close>

definition fabric_getAccessToken ::
  "runtime \<Rightarrow> env \<Rightarrow> network \<Rightarrow> int \<Rightarrow> world \<Rightarrow> (js_error + jsval) \<times> world" where
  "fabric_getAccessToken rt e net now w =
     (if fresh (tokenCache w) now then (Inr (token (tokenCache w)), w)
      else
        (case fetch net w (powerbi_token_request rt e) of
           (Inl err, w1) \<Rightarrow> (Inl err, w1)
         | (Inr response, w1) \<Rightarrow>
             if \<not> ok response then
               (Inl (Error (''Token error: '' @ dec (status response))), w1)
             else
               (case JSON_parse rt (body_text response) of
                  None \<Rightarrow> (Inl SyntaxError, w1)
                | Some data \<Rightarrow>
                    (case get_prop data ''access_token'' of
                       Inl err \<Rightarrow> (Inl err, w1)
                     | Inr access_token \<Rightarrow>
                         (case get_prop data ''expires_in'' of
                            Inl err \<Rightarrow> (Inl err, w1)
                          | Inr expires_in \<Rightarrow>
                              (Inr access_token,
                               w1\<lparr>tokenCache := new_cache rt now access_token expires_in\<rparr>))))))"

text \<open>
  The options of \<^verbatim>\<open>fabric_api_call\<close>: \<^verbatim>\<open>method.toUpperCase()\<close> raises unless
  \<open>method\<close> is a string; the body is sent for POST, PUT and PATCH only, a string as it
  is, any other truthy value through \<^verbatim>\<open>JSON.stringify\<close>.
\<close>

definition fabric_call_request ::
  "runtime \<Rightarrow> jsval \<Rightarrow> jsval \<Rightarrow> jsval \<Rightarrow> jsval \<Rightarrow> js_error + http_request" where
  "fabric_call_request rt tok method path body =
     (case method of
        JStr m \<Rightarrow>
          Inr \<lparr>req_url = ''https://api.fabric.microsoft.com/v1'' @ ToString path,
               req_method = toUpperCase rt m,
               req_headers = [(''Authorization'', ''Bearer '' @ ToString tok),
                              (''Content-Type'', ''application/json'')],
               req_body =
                 (if truthy body \<and> toUpperCase rt m \<in> set [''POST'', ''PUT'', ''PATCH'']
                  then Some (case body of JStr s \<Rightarrow> s | _ \<Rightarrow> JSON_stringify rt body)
                  else None)\<rparr>
      | _ \<Rightarrow> Inl TypeError)"

text \<open>\<^verbatim>\<open>fabric_api_call({ method, path, body })\<close>: it has no test of \<^verbatim>\<open>response.ok\<close>.\<close>

definition fabric_api_call ::
  "runtime \<Rightarrow> env \<Rightarrow> network \<Rightarrow> int \<Rightarrow> jsval \<Rightarrow> jsval \<Rightarrow> jsval \<Rightarrow> world
     \<Rightarrow> (js_error + string) \<times> world" where
  "fabric_api_call rt e net now method path body w =
     (case fabric_getAccessToken rt e net now w of
        (Inl err, w1) \<Rightarrow> (Inl err, w1)
      | (Inr tok, w1) \<Rightarrow>
          (case fabric_call_request rt tok method path body of
             Inl err \<Rightarrow> (Inl err, w1)
           | Inr req \<Rightarrow>
               (case fetch net w1 req of
                  (Inl err, w2) \<Rightarrow> (Inl err, w2)
                | (Inr response, w2) \<Rightarrow>
                    (case parse_or_null rt (body_text response) of
                       Inl err \<Rightarrow> (Inl err, w2)
                     | Inr data \<Rightarrow>
                         (Inr (JSON_pretty rt (JObj
                            [(''status'', JNum (int (status response))),
                             (''statusText'', JStr (statusText response)),
                             (''data'', data)])), w2)))))"

section \<open>skills/powerbi-report-builder\<close>

text \<open>
  \<^verbatim>\<open>getAccessToken\<close> of skills/powerbi-report-builder/index.js: the one token function
  that tests the three credentials before it builds the request.
\<close>

definition builder_getAccessToken ::
  "runtime \<Rightarrow> env \<Rightarrow> network \<Rightarrow> int \<Rightarrow> world \<Rightarrow> (js_error + jsval) \<times> world" where
  "builder_getAccessToken rt e net now w =
     (if fresh (tokenCache w) now then (Inr (token (tokenCache w)), w)
      else if \<not> env_set (AZURE_TENANT_ID e) \<or> \<not> env_set (AZURE_CLIENT_ID e)
              \<or> \<not> env_set (AZURE_CLIENT_SECRET e) then
        (Inl (Error ''Missing Azure AD credentials. Set AZURE_TENANT_ID, AZURE_CLIENT_ID, AZURE_CLIENT_SECRET in .env''), w)
      else
        (case fetch net w (powerbi_token_request rt e) of
           (Inl err, w1) \<Rightarrow> (Inl err, w1)
         | (Inr response, w1) \<Rightarrow>
             if \<not> ok response then
               (Inl (Error (''Azure AD token error: '' @ dec (status response) @ '' - ''
                            @ body_text response)), w1)
             else
               (case JSON_parse rt (body_text response) of
                  None \<Rightarrow> (Inl SyntaxError, w1)
                | Some data \<Rightarrow>
                    (case get_prop data ''access_token'' of
                       Inl err \<Rightarrow> (Inl err, w1)
                     | Inr access_token \<Rightarrow>
                         (case get_prop data ''expires_in'' of
                            Inl err \<Rightarrow> (Inl err, w1)
                          | Inr expires_in \<Rightarrow>
                              (Inr access_token,
                               w1\<lparr>tokenCache := new_cache rt now access_token expires_in\<rparr>))))))"

definition fabric_api_request :: "runtime \<Rightarrow> jsval \<Rightarrow> string \<Rightarrow> string \<Rightarrow> jsval \<Rightarrow> http_request" where
  "fabric_api_request rt tok method path body =
     \<lparr>req_url = ''https://api.fabric.microsoft.com/v1'' @ path,
      req_method = method,
      req_headers = [(''Authorization'', ''Bearer '' @ ToString tok),
                     (''Content-Type'', ''application/json'')],
      req_body = (if truthy body then Some (JSON_stringify rt body) else None)\<rparr>"

text \<open>\<^verbatim>\<open>fabricApiRequest(method, path, body = null)\<close>.\<close>

definition fabricApiRequest ::
  "runtime \<Rightarrow> env \<Rightarrow> network \<Rightarrow> int \<Rightarrow> string \<Rightarrow> string \<Rightarrow> jsval \<Rightarrow> world
     \<Rightarrow> (js_error + jsval) \<times> world" where
  "fabricApiRequest rt e net now method path body w =
     (case builder_getAccessToken rt e net now w of
        (Inl err, w1) \<Rightarrow> (Inl err, w1)
      | (Inr tok, w1) \<Rightarrow>
          (case fetch net w1 (fabric_api_request rt tok method path body) of
             (Inl err, w2) \<Rightarrow> (Inl err, w2)
           | (Inr response, w2) \<Rightarrow>
               if \<not> ok response then
                 (Inl (Error (''Fabric API error: '' @ dec (status response) @ '' - ''
                              @ body_text response)), w2)
               else (parse_or_null rt (body_text response), w2)))"

section \<open>Interleaved calls of the token functions\<close>

text \<open>
  The token functions are \<^verbatim>\<open>async\<close>: a call runs without interruption up to its next
  \<^verbatim>\<open>await\<close>, and other calls on the same module run while it waits. A call in flight is
  a \<open>task\<close>: it waits for \<^verbatim>\<open>fetch\<close> (holding the clock reading of its first line and
  the request sent), for \<^verbatim>\<open>response.text()\<close> of a failed exchange, for
  \<^verbatim>\<open>response.json()\<close> of a successful one, or it has settled. The four functions
  below are the four stretches of code between the awaits; \<open>skill\<close> selects the module
  where the three token functions differ (the request, the credential test, the message).
\<close>

datatype skill = EmailManager | FabricApi | ReportBuilder

datatype task =
    Awaiting_fetch int http_request
  | Awaiting_text http_response
  | Awaiting_json int http_response
  | Settled "js_error + jsval"

fun token_request :: "skill \<Rightarrow> runtime \<Rightarrow> env \<Rightarrow> http_request" where
  "token_request EmailManager rt e = graph_token_request rt e"
| "token_request FabricApi rt e = powerbi_token_request rt e"
| "token_request ReportBuilder rt e = powerbi_token_request rt e"

fun token_error :: "skill \<Rightarrow> http_response \<Rightarrow> js_error" where
  "token_error EmailManager r =
     Error (''Graph token error: '' @ dec (status r) @ '' - '' @ body_text r)"
| "token_error FabricApi r = Error (''Token error: '' @ dec (status r))"
| "token_error ReportBuilder r =
     Error (''Azure AD token error: '' @ dec (status r) @ '' - '' @ body_text r)"

definition credentials_missing :: "skill \<Rightarrow> env \<Rightarrow> bool" where
  "credentials_missing sk e =
     (sk = ReportBuilder \<and>
      (\<not> env_set (AZURE_TENANT_ID e) \<or> \<not> env_set (AZURE_CLIENT_ID e)
       \<or> \<not> env_set (AZURE_CLIENT_SECRET e)))"

definition on_call :: "skill \<Rightarrow> runtime \<Rightarrow> env \<Rightarrow> token_cache \<Rightarrow> int \<Rightarrow> task" where
  "on_call sk rt e c now =
     (if fresh c now then Settled (Inr (token c))
      else if credentials_missing sk e then
        Settled (Inl (Error ''Missing Azure AD credentials. Set AZURE_TENANT_ID, AZURE_CLIENT_ID, AZURE_CLIENT_SECRET in .env''))
      else Awaiting_fetch now (token_request sk rt e))"

definition on_fetch :: "skill \<Rightarrow> int \<Rightarrow> js_error + http_response \<Rightarrow> task" where
  "on_fetch sk now r =
     (case r of
        Inl err \<Rightarrow> Settled (Inl err)
      | Inr response \<Rightarrow>
          if \<not> ok response then
            (if sk = FabricApi then Settled (Inl (token_error sk response))
             else Awaiting_text response)
          else Awaiting_json now response)"

definition on_text :: "skill \<Rightarrow> http_response \<Rightarrow> task" where
  "on_text sk response = Settled (Inl (token_error sk response))"

definition on_json :: "runtime \<Rightarrow> int \<Rightarrow> http_response \<Rightarrow> token_cache \<Rightarrow> task \<times> token_cache" where
  "on_json rt now response c =
     (case JSON_parse rt (body_text response) of
        None \<Rightarrow> (Settled (Inl SyntaxError), c)
      | Some data \<Rightarrow>
          (case get_prop data ''access_token'' of
             Inl err \<Rightarrow> (Settled (Inl err), c)
           | Inr access_token \<Rightarrow>
               (case get_prop data ''expires_in'' of
                  Inl err \<Rightarrow> (Settled (Inl err), c)
                | Inr expires_in \<Rightarrow>
                    (Settled (Inr access_token), new_cache rt now access_token expires_in))))"

text \<open>
  A configuration is the module's cache, the calls made so far and the exchanges
  completed so far, each with the clock reading of the call that made it. A step starts a
  call at some clock reading, or resumes one waiting call; the network may answer a
  request in any way.
\<close>

record conf =
  shared_cache :: token_cache
  tasks :: "task list"
  exchanges :: "(int \<times> exchange) list"

definition init_conf :: conf where
  "init_conf = \<lparr>shared_cache = init_cache, tasks = [], exchanges = []\<rparr>"

inductive step :: "skill \<Rightarrow> runtime \<Rightarrow> env \<Rightarrow> conf \<Rightarrow> conf \<Rightarrow> bool"
  for sk :: skill and rt :: runtime and e :: env
where
  call: "step sk rt e c (c\<lparr>tasks := tasks c @ [on_call sk rt e (shared_cache c) now]\<rparr>)"
| fetched:
    "i < length (tasks c) \<Longrightarrow> tasks c ! i = Awaiting_fetch now req \<Longrightarrow>
     step sk rt e c
       (c\<lparr>tasks := (tasks c)[i := on_fetch sk now r],
          exchanges := exchanges c @ [(now, req, r)]\<rparr>)"
| text_read:
    "i < length (tasks c) \<Longrightarrow> tasks c ! i = Awaiting_text response \<Longrightarrow>
     step sk rt e c (c\<lparr>tasks := (tasks c)[i := on_text sk response]\<rparr>)"
| json_read:
    "i < length (tasks c) \<Longrightarrow> tasks c ! i = Awaiting_json now response \<Longrightarrow>
     on_json rt now response (shared_cache c) = (t, c') \<Longrightarrow>
     step sk rt e c (c\<lparr>tasks := (tasks c)[i := t], shared_cache := c'\<rparr>)"

inductive reachable :: "skill \<Rightarrow> runtime \<Rightarrow> env \<Rightarrow> conf \<Rightarrow> bool"
  for sk :: skill and rt :: runtime and e :: env
where
  at_start: "reachable sk rt e init_conf"
| after_step: "reachable sk rt e c \<Longrightarrow> step sk rt e c c' \<Longrightarrow> reachable sk rt e c'"

text \<open>
  A cache is \<open>paired\<close> in a history of exchanges when it is the initial cache or both
  of its fields were computed from one and the same successful exchange of that history:
  the token is the \<^verbatim>\<open>access_token\<close> of its response, and the expiry is the clock
  reading of the call that made the exchange plus a thousand times the \<^verbatim>\<open>expires_in\<close>
  of the same response.
\<close>

definition cache_of :: "runtime \<Rightarrow> int \<Rightarrow> http_response \<Rightarrow> token_cache \<Rightarrow> bool" where
  "cache_of rt now response c =
     (ok response \<and>
      (case JSON_parse rt (body_text response) of
         None \<Rightarrow> False
       | Some data \<Rightarrow>
           c = new_cache rt now (opt_get data ''access_token'') (opt_get data ''expires_in'')))"

definition paired :: "runtime \<Rightarrow> (int \<times> exchange) list \<Rightarrow> token_cache \<Rightarrow> bool" where
  "paired rt xs c =
     (c = init_cache \<or>
      (\<exists>now req response. (now, req, Inr response) \<in> set xs \<and> cache_of rt now response c))"

text \<open>
  A call waiting for \<^verbatim>\<open>response.json()\<close> holds its own clock reading and a successful
  response that the history records for it. Together with \<open>paired\<close> this is the
  invariant of the interleaved calls.
\<close>

definition waiting_ok :: "(int \<times> exchange) list \<Rightarrow> task \<Rightarrow> bool" where
  "waiting_ok xs t =
     (case t of
        Awaiting_json now response \<Rightarrow>
          ok response \<and> (\<exists>req. (now, req, Inr response) \<in> set xs)
      | _ \<Rightarrow> True)"

definition conf_inv :: "runtime \<Rightarrow> conf \<Rightarrow> bool" where
  "conf_inv rt c =
     (paired rt (exchanges c) (shared_cache c) \<and> (\<forall>t \<in> set (tasks c). waiting_ok (exchanges c) t))"

text \<open>
  The module state seen as a configuration, with the calls \<open>ts\<close> made before and the
  clock readings \<open>nows\<close> of the calls that made the logged exchanges.
\<close>

definition conf_of :: "world \<Rightarrow> task list \<Rightarrow> int list \<Rightarrow> conf" where
  "conf_of w ts nows = \<lparr>shared_cache = tokenCache w, tasks = ts, exchanges = zip nows (log w)\<rparr>"

section \<open>The token function of a module\<close>

text \<open>The three token functions, selected by module.\<close>

fun getToken ::
  "skill \<Rightarrow> runtime \<Rightarrow> env \<Rightarrow> network \<Rightarrow> int \<Rightarrow> world \<Rightarrow> (js_error + jsval) \<times> world" where
  "getToken EmailManager = getGraphToken"
| "getToken FabricApi = fabric_getAccessToken"
| "getToken ReportBuilder = builder_getAccessToken"

section \<open>Test doubles\<close>

text \<open>
  The concrete instances below run the model against these doubles: a runtime whose
  \<^verbatim>\<open>JSON.parse\<close> knows the bodies the instances use, a network that answers the
  exchanges in the order of a script, and an environment with or without credentials.
\<close>

definition tok_body :: "string \<Rightarrow> nat \<Rightarrow> string" where
  "tok_body t secs = ''{'' @ [CHR 0x22] @ ''access_token'' @ [CHR 0x22] @ '':'' @ [CHR 0x22] @ t
     @ [CHR 0x22] @ '','' @ [CHR 0x22] @ ''expires_in'' @ [CHR 0x22] @ '':'' @ dec secs @ ''}''"

definition tok_data :: "string \<Rightarrow> int \<Rightarrow> jsval" where
  "tok_data t secs = JObj [(''access_token'', JStr t), (''expires_in'', JNum secs)]"

definition msg_body :: string where
  "msg_body = ''{'' @ [CHR 0x22] @ ''id'' @ [CHR 0x22] @ '':'' @ [CHR 0x22] @ ''m1'' @ [CHR 0x22] @ ''}''"

definition test_parse :: "string \<Rightarrow> jsval option" where
  "test_parse = map_of
     [(tok_body ''T1'' 3600, tok_data ''T1'' 3600),
      (tok_body ''T2'' 3600, tok_data ''T2'' 3600),
      (tok_body ''T1'' 30, tok_data ''T1'' 30),
      (msg_body, JObj [(''id'', JStr ''m1'')]),
      (''{}'', JObj [])]"

definition test_runtime :: runtime where
  "test_runtime =
     \<lparr>JSON_parse = test_parse,
      JSON_stringify = ToString,
      JSON_pretty = ToString,
      StringToNumber = (\<lambda>s. NaN),
      URLSearchParams = (\<lambda>kvs. concat (map (\<lambda>(k, v). k @ ''='' @ v @ ''&'') kvs)),
      encodeURIComponent = (\<lambda>s. s),
      String_replace = (\<lambda>re s by. s),
      String_trim = (\<lambda>s. s),
      toUpperCase = (\<lambda>s. s)\<rparr>"

definition net_script :: "(js_error + http_response) list \<Rightarrow> network" where
  "net_script rs h req =
     (if length h < length rs then rs ! length h else Inl (NetworkError ''offline''))"

definition reply :: "nat \<Rightarrow> string \<Rightarrow> js_error + http_response" where
  "reply code txt = Inr \<lparr>status = code, statusText = [], body_text = txt\<rparr>"

definition test_env :: env where
  "test_env = \<lparr>AZURE_TENANT_ID = Some ''tenant'', AZURE_CLIENT_ID = Some ''client'',
               AZURE_CLIENT_SECRET = Some ''secret'', EMAIL_USER_var = None\<rparr>"

definition no_client_env :: env where
  "no_client_env = \<lparr>AZURE_TENANT_ID = Some ''tenant'', AZURE_CLIENT_ID = None,
                    AZURE_CLIENT_SECRET = Some ''secret'', EMAIL_USER_var = None\<rparr>"

definition cold :: world where
  "cold = \<lparr>tokenCache = init_cache, log = []\<rparr>"

definition warm :: "string \<Rightarrow> int \<Rightarrow> world" where
  "warm t expiry = \<lparr>tokenCache = \<lparr>token = JStr t, expiresAt = Num expiry\<rparr>, log = []\<rparr>"

definition issuing :: "string \<Rightarrow> nat \<Rightarrow> network" where
  "issuing t secs = net_script [reply 200 (tok_body t secs)]"

definition after_T1 :: world where
  "after_T1 =
     cold\<lparr>log := log cold @ [(token_request EmailManager test_runtime test_env, reply 200 (tok_body ''T1'' 3600))],
          tokenCache := \<lparr>token = JStr ''T1'', expiresAt = Num (0 + 3600 * 1000)\<rparr>\<rparr>"

definition m1_formatted :: jsval where
  "m1_formatted = JObj
     [(''id'', JStr ''m1''), (''subject'', JUndefined), (''from'', JUndefined),
      (''to'', JArr []), (''cc'', JArr []), (''date'', JUndefined), (''body'', JStr []),
      (''bodyHtml'', JUndefined), (''hasAttachments'', JUndefined)]"

text \<open>
  Two interleaved calls of \<^verbatim>\<open>getGraphToken\<close>, started at times 0 and 5000 on a cold
  cache: both send the token request, the first is answered with \<^verbatim>\<open>T1\<close>, the second
  with \<^verbatim>\<open>T2\<close>, and the second finishes before the first.
\<close>

definition two_calls_pending :: conf where
  "two_calls_pending =
     \<lparr>shared_cache = \<lparr>token = JStr ''T2'', expiresAt = Num 3605000\<rparr>,
      tasks = [Awaiting_json 0 \<lparr>status = 200, statusText = [], body_text = tok_body ''T1'' 3600\<rparr>,
               Settled (Inr (JStr ''T2''))],
      exchanges = [(0, graph_token_request test_runtime test_env, reply 200 (tok_body ''T1'' 3600)),
                   (5000, graph_token_request test_runtime test_env, reply 200 (tok_body ''T2'' 3600))]\<rparr>"

definition two_calls_done :: conf where
  "two_calls_done =
     \<lparr>shared_cache = \<lparr>token = JStr ''T1'', expiresAt = Num 3600000\<rparr>,
      tasks = [Settled (Inr (JStr ''T1'')), Settled (Inr (JStr ''T2''))],
      exchanges = [(0, graph_token_request test_runtime test_env, reply 200 (tok_body ''T1'' 3600)),
                   (5000, graph_token_request test_runtime test_env, reply 200 (tok_body ''T2'' 3600))]\<rparr>"

section \<open>Properties\<close>

lemma fresh_iff:
  "fresh c now = (truthy (token c) \<and> (\<exists>x. expiresAt c = Num x \<and> x > now + 60000))"
  by (cases "expiresAt c") (simp_all add: fresh_def)

subsection \<open>C1: a fresh cached token is returned without a network call\<close>

text \<open>
  C1. For every clock reading \<open>now\<close>: if the cache holds a token (a truthy
  \<^verbatim>\<open>tokenCache.token\<close>) whose \<open>expiresAt\<close> is strictly greater than \<open>now + 60000\<close>,
  the token function returns that token and leaves the state as it was; in particular the
  log of exchanges is unchanged, so no network call was made. This holds for the token
  functions of all three modules.
\<close>

theorem token_reused_while_fresh:
  assumes "truthy (token (tokenCache w))"
    and "expiresAt (tokenCache w) = Num x"
    and "x > now + 60000"
  shows "getGraphToken rt e net now w = (Inr (token (tokenCache w)), w)
       \<and> fabric_getAccessToken rt e net now w = (Inr (token (tokenCache w)), w)
       \<and> builder_getAccessToken rt e net now w = (Inr (token (tokenCache w)), w)"
proof -
  from assms have "fresh (tokenCache w) now"
    by (simp add: fresh_def)
  then show ?thesis
    by (simp add: getGraphToken_def fabric_getAccessToken_def builder_getAccessToken_def)
qed

theorem token_reused_while_fresh_witness:
  "truthy (token (tokenCache (warm ''T1'' 3600000)))
   \<and> expiresAt (tokenCache (warm ''T1'' 3600000)) = Num 3600000
   \<and> (3600000::int) > 1000 + 60000
   \<and> getGraphToken test_runtime test_env (net_script []) 1000 (warm ''T1'' 3600000)
       = (Inr (JStr ''T1''), warm ''T1'' 3600000)
   \<and> fabric_getAccessToken test_runtime test_env (net_script []) 1000 (warm ''T1'' 3600000)
       = (Inr (JStr ''T1''), warm ''T1'' 3600000)"
  using token_reused_while_fresh
    [of "warm ''T1'' 3600000" 3600000 1000 test_runtime test_env "net_script []"]
  by (simp add: warm_def)

subsection \<open>Shared facts about the token functions\<close>

lemmas token_defs =
  getGraphToken_def fabric_getAccessToken_def builder_getAccessToken_def
  credentials_missing_def fetch_def Let_def

lemma one_exchange:
  assumes "\<not> fresh (tokenCache w) now" and "\<not> credentials_missing sk e"
  shows "log (snd (getToken sk rt e net now w))
       = log w @ [(token_request sk rt e, net (log w) (token_request sk rt e))]"
  using assms
  by (cases sk) (simp_all add: token_defs split: sum.splits option.splits prod.splits)

lemma refresh_result:
  assumes "\<not> fresh (tokenCache w) now" and "\<not> credentials_missing sk e"
    and "net (log w) (token_request sk rt e) = Inr response" and "ok response"
    and "JSON_parse rt (body_text response) = Some data"
    and "get_prop data ''access_token'' = Inr tok"
    and "get_prop data ''expires_in'' = Inr secs"
  shows "getToken sk rt e net now w =
     (Inr tok, w\<lparr>log := log w @ [(token_request sk rt e, Inr response)],
                 tokenCache := new_cache rt now tok secs\<rparr>)"
  using assms by (cases sk) (simp_all add: token_defs)

lemma fresh_returns:
  "fresh (tokenCache w) now \<Longrightarrow> getToken sk rt e net now w = (Inr (token (tokenCache w)), w)"
  by (cases sk) (simp_all add: token_defs)

lemma parse_T1: "test_parse (tok_body ''T1'' 3600) = Some (tok_data ''T1'' 3600)"
  by (simp add: test_parse_def tok_body_def dec.simps)

lemma parse_T1_30: "test_parse (tok_body ''T1'' 30) = Some (tok_data ''T1'' 30)"
  by (simp add: test_parse_def tok_body_def dec.simps)

lemma parse_T2: "test_parse (tok_body ''T2'' 3600) = Some (tok_data ''T2'' 3600)"
  by (simp add: test_parse_def tok_body_def dec.simps)

subsection \<open>C2: a stale or empty cache is refreshed by one exchange\<close>

text \<open>
  C2, as stated, fails on its last part: the token just issued is not reused by an
  immediate second call when its lifetime does not exceed the 60 s margin. Below, the
  identity provider issues \<^verbatim>\<open>T1\<close> with \<^verbatim>\<open>expires_in = 30\<close>; the call at time 0
  returns \<^verbatim>\<open>T1\<close>, and a second call at time 0 makes a second exchange and returns
  \<^verbatim>\<open>T2\<close>.
\<close>

theorem immediate_call_exchanges_again:
  "fst (getGraphToken test_runtime test_env
          (net_script [reply 200 (tok_body ''T1'' 30), reply 200 (tok_body ''T2'' 3600)]) 0 cold)
     = Inr (JStr ''T1'')
   \<and> fst (getGraphToken test_runtime test_env
          (net_script [reply 200 (tok_body ''T1'' 30), reply 200 (tok_body ''T2'' 3600)]) 0
          (snd (getGraphToken test_runtime test_env
             (net_script [reply 200 (tok_body ''T1'' 30), reply 200 (tok_body ''T2'' 3600)]) 0 cold)))
     = Inr (JStr ''T2'')
   \<and> length (log (snd (getGraphToken test_runtime test_env
          (net_script [reply 200 (tok_body ''T1'' 30), reply 200 (tok_body ''T2'' 3600)]) 0
          (snd (getGraphToken test_runtime test_env
             (net_script [reply 200 (tok_body ''T1'' 30), reply 200 (tok_body ''T2'' 3600)]) 0 cold)))))
     = 2"
  by (simp add: getGraphToken_def fetch_def Let_def test_runtime_def net_script_def reply_def
        cold_def init_cache_def fresh_def ok_def parse_T1_30 parse_T2 tok_data_def new_cache_def)

text \<open>
  C2, amended. For every clock reading \<open>now\<close> at which the cache is not fresh (no truthy
  token, or \<open>expiresAt \<le> now + 60000\<close>), and with the credential test of the report
  builder passed, the token function makes exactly one exchange, the token request,
  whatever the answer. On a 2xx answer whose body parses to \<open>data\<close> with a numeric
  \<^verbatim>\<open>expires_in\<close> it returns \<^verbatim>\<open>data.access_token\<close> and replaces the cache by that token
  with \<open>expiresAt = now + expires_in * 1000\<close>. If moreover the token is truthy and
  \<open>expires_in * 1000 > 60000\<close>, a second call at the same \<open>now\<close> returns the same token
  and leaves the state, exchange log included, unchanged, on any network.
\<close>

theorem refresh_exchanges_once_then_reuses:
  assumes "\<not> fresh (tokenCache w) now" and "\<not> credentials_missing sk e"
  shows "log (snd (getToken sk rt e net now w))
           = log w @ [(token_request sk rt e, net (log w) (token_request sk rt e))]
       \<and> (\<forall>response data tok secs.
            net (log w) (token_request sk rt e) = Inr response \<and> ok response
            \<and> JSON_parse rt (body_text response) = Some data
            \<and> get_prop data ''access_token'' = Inr tok
            \<and> get_prop data ''expires_in'' = Inr (JNum secs)
            \<longrightarrow> getToken sk rt e net now w =
                  (Inr tok, w\<lparr>log := log w @ [(token_request sk rt e, Inr response)],
                              tokenCache := \<lparr>token = tok, expiresAt = Num (now + secs * 1000)\<rparr>\<rparr>)
               \<and> (truthy tok \<and> secs * 1000 > 60000 \<longrightarrow>
                    (\<forall>net'. getToken sk rt e net' now
                       (w\<lparr>log := log w @ [(token_request sk rt e, Inr response)],
                          tokenCache := \<lparr>token = tok, expiresAt = Num (now + secs * 1000)\<rparr>\<rparr>)
                     = (Inr tok,
                        w\<lparr>log := log w @ [(token_request sk rt e, Inr response)],
                          tokenCache := \<lparr>token = tok, expiresAt = Num (now + secs * 1000)\<rparr>\<rparr>))))"
proof (intro conjI allI impI)
  show "log (snd (getToken sk rt e net now w))
           = log w @ [(token_request sk rt e, net (log w) (token_request sk rt e))]"
    using assms by (rule one_exchange)
next
  fix response data tok secs
  assume h: "net (log w) (token_request sk rt e) = Inr response \<and> ok response
            \<and> JSON_parse rt (body_text response) = Some data
            \<and> get_prop data ''access_token'' = Inr tok
            \<and> get_prop data ''expires_in'' = Inr (JNum secs)"
  then show "getToken sk rt e net now w =
                  (Inr tok, w\<lparr>log := log w @ [(token_request sk rt e, Inr response)],
                              tokenCache := \<lparr>token = tok, expiresAt = Num (now + secs * 1000)\<rparr>\<rparr>)"
    using refresh_result [OF assms, of net rt response data tok "JNum secs"]
    by (simp add: new_cache_def)
next
  fix response data tok and secs :: int and net' :: network
  assume "truthy tok \<and> secs * 1000 > 60000"
  then have "fresh \<lparr>token = tok, expiresAt = Num (now + secs * 1000)\<rparr> now"
    by (simp add: fresh_def)
  then show "getToken sk rt e net' now
                       (w\<lparr>log := log w @ [(token_request sk rt e, Inr response)],
                          tokenCache := \<lparr>token = tok, expiresAt = Num (now + secs * 1000)\<rparr>\<rparr>)
                     = (Inr tok,
                        w\<lparr>log := log w @ [(token_request sk rt e, Inr response)],
                          tokenCache := \<lparr>token = tok, expiresAt = Num (now + secs * 1000)\<rparr>\<rparr>)"
    by (simp add: fresh_returns)
qed

theorem refresh_exchanges_once_then_reuses_witness:
  "\<not> fresh (tokenCache cold) 0 \<and> \<not> credentials_missing EmailManager test_env
   \<and> issuing ''T1'' 3600 (log cold) (token_request EmailManager test_runtime test_env)
       = reply 200 (tok_body ''T1'' 3600)
   \<and> log (snd (getToken EmailManager test_runtime test_env (issuing ''T1'' 3600) 0 cold))
       = [(token_request EmailManager test_runtime test_env, reply 200 (tok_body ''T1'' 3600))]
   \<and> getToken EmailManager test_runtime test_env (issuing ''T1'' 3600) 0 cold
       = (Inr (JStr ''T1''), after_T1)
   \<and> getToken EmailManager test_runtime test_env (net_script []) 0 after_T1
       = (Inr (JStr ''T1''), after_T1)"
proof -
  have stale: "\<not> fresh (tokenCache cold) 0"
    by (simp add: cold_def init_cache_def fresh_def)
  have creds: "\<not> credentials_missing EmailManager test_env"
    by (simp add: credentials_missing_def)
  have answer: "issuing ''T1'' 3600 (log cold) (token_request EmailManager test_runtime test_env)
       = reply 200 (tok_body ''T1'' 3600)"
    by (simp add: issuing_def net_script_def cold_def)
  have parsed: "ok \<lparr>status = 200, statusText = [], body_text = tok_body ''T1'' 3600\<rparr>
     \<and> JSON_parse test_runtime (body_text \<lparr>status = 200, statusText = [], body_text = tok_body ''T1'' 3600\<rparr>)
         = Some (tok_data ''T1'' 3600)
     \<and> get_prop (tok_data ''T1'' 3600) ''access_token'' = Inr (JStr ''T1'')
     \<and> get_prop (tok_data ''T1'' 3600) ''expires_in'' = Inr (JNum 3600)
     \<and> truthy (JStr ''T1'') \<and> (3600::int) * 1000 > 60000"
    by (simp add: ok_def test_runtime_def parse_T1) (simp add: tok_data_def)
  note inst = refresh_exchanges_once_then_reuses
    [OF stale creds, of test_runtime "issuing ''T1'' 3600"]
  from inst have once:
    "log (snd (getToken EmailManager test_runtime test_env (issuing ''T1'' 3600) 0 cold))
       = log cold @ [(token_request EmailManager test_runtime test_env, reply 200 (tok_body ''T1'' 3600))]"
    using answer by simp
  from inst answer parsed
  have "getToken EmailManager test_runtime test_env (issuing ''T1'' 3600) 0 cold
          = (Inr (JStr ''T1''), after_T1)
      \<and> (\<forall>net'. getToken EmailManager test_runtime test_env net' 0 after_T1 = (Inr (JStr ''T1''), after_T1))"
    unfolding after_T1_def reply_def by blast
  with stale creds answer once show ?thesis
    by (simp add: cold_def)
qed
lemma fresh_earlier: "fresh c now' \<Longrightarrow> now \<le> now' \<Longrightarrow> fresh c now"
  by (cases "expiresAt c") (simp_all add: fresh_def)

lemma failed_exchange_result:
  assumes "\<not> fresh (tokenCache w) now" and "\<not> credentials_missing sk e"
    and "net (log w) (token_request sk rt e) = Inr response" and "\<not> ok response"
  shows "getToken sk rt e net now w =
     (Inl (token_error sk response), w\<lparr>log := log w @ [(token_request sk rt e, Inr response)]\<rparr>)"
  using assms by (cases sk) (simp_all add: token_defs)

lemma error_keeps_cache:
  "fst (getToken sk rt e net now w) = Inl err \<Longrightarrow>
   tokenCache (snd (getToken sk rt e net now w)) = tokenCache w"
  by (cases sk)
     (auto simp: token_defs split: if_splits sum.splits option.splits prod.splits)

subsection \<open>C4: a failed exchange leaves the cache as it was\<close>

text \<open>
  C4, as stated, fails on its consequence. An exchange is only attempted when the cached
  token is within 60 s of its expiry, so after a failed exchange a later call that is
  still before the token's expiry does not return the cached token: it exchanges again.
  Below the cache holds \<^verbatim>\<open>T1\<close> expiring at 100000; the call at 50000 gets a 401 and
  fails, the cache is untouched, and the call at 50001, before the expiry, returns the
  newly issued \<^verbatim>\<open>T2\<close>.
\<close>

theorem stale_token_not_returned_after_failure:
  "fst (getGraphToken test_runtime test_env
          (net_script [reply 401 ''denied'', reply 200 (tok_body ''T2'' 3600)]) 50000
          (warm ''T1'' 100000))
     = Inl (Error ''Graph token error: 401 - denied'')
   \<and> tokenCache (snd (getGraphToken test_runtime test_env
          (net_script [reply 401 ''denied'', reply 200 (tok_body ''T2'' 3600)]) 50000
          (warm ''T1'' 100000)))
     = \<lparr>token = JStr ''T1'', expiresAt = Num 100000\<rparr>
   \<and> (50001::int) < 100000
   \<and> fst (getGraphToken test_runtime test_env
          (net_script [reply 401 ''denied'', reply 200 (tok_body ''T2'' 3600)]) 50001
          (snd (getGraphToken test_runtime test_env
             (net_script [reply 401 ''denied'', reply 200 (tok_body ''T2'' 3600)]) 50000
             (warm ''T1'' 100000))))
     = Inr (JStr ''T2'')"
  by (simp add: getGraphToken_def fetch_def Let_def test_runtime_def net_script_def reply_def
        warm_def fresh_def ok_def parse_T2 tok_data_def new_cache_def dec.simps)

text \<open>
  C4, amended. If the exchange of a token call at \<open>now\<close> is answered with a non-2xx
  status, the cache after the call is exactly the cache before it. A later call therefore
  returns the cached token, without an exchange, whenever that token is fresh at the later
  call's clock reading \<open>now'\<close> (truthy and \<open>expiresAt > now' + 60000\<close>); a later call at
  any \<open>now' \<ge> now\<close> is not in that case and makes one more exchange.
\<close>

theorem failed_exchange_keeps_cache:
  assumes "\<not> fresh (tokenCache w) now" and "\<not> credentials_missing sk e"
    and "net (log w) (token_request sk rt e) = Inr response" and "\<not> ok response"
  shows "tokenCache (snd (getToken sk rt e net now w)) = tokenCache w
       \<and> (\<forall>now' net'. fresh (tokenCache w) now' \<longrightarrow>
             getToken sk rt e net' now' (snd (getToken sk rt e net now w))
               = (Inr (token (tokenCache w)), snd (getToken sk rt e net now w)))
       \<and> (\<forall>now' net'. now \<le> now' \<longrightarrow>
             length (log (snd (getToken sk rt e net' now' (snd (getToken sk rt e net now w)))))
               = length (log w) + 2)"
proof -
  let ?w1 = "w\<lparr>log := log w @ [(token_request sk rt e, Inr response)]\<rparr>"
  have r: "getToken sk rt e net now w = (Inl (token_error sk response), ?w1)"
    using assms by (rule failed_exchange_result)
  have kept: "tokenCache ?w1 = tokenCache w" by simp
  have reuse: "getToken sk rt e net' now' ?w1 = (Inr (token (tokenCache w)), ?w1)"
    if "fresh (tokenCache w) now'" for now' net'
    using that fresh_returns [of ?w1 now' sk rt e net'] by simp
  have again: "length (log (snd (getToken sk rt e net' now' ?w1))) = length (log w) + 2"
    if "now \<le> now'" for now' net'
  proof -
    have "\<not> fresh (tokenCache ?w1) now'"
      using that assms(1) fresh_earlier [of "tokenCache w" now' now] by auto
    then show ?thesis
      using one_exchange [of ?w1 now' sk e rt net'] assms(2) by simp
  qed
  show ?thesis
    unfolding r using reuse again by simp
qed

theorem failed_exchange_keeps_cache_witness:
  "\<not> fresh (tokenCache (warm ''T1'' 100000)) 50000
   \<and> \<not> credentials_missing EmailManager test_env
   \<and> net_script [reply 401 ''denied''] (log (warm ''T1'' 100000))
        (token_request EmailManager test_runtime test_env)
       = Inr \<lparr>status = 401, statusText = [], body_text = ''denied''\<rparr>
   \<and> \<not> ok \<lparr>status = 401, statusText = [], body_text = ''denied''\<rparr>
   \<and> tokenCache (snd (getToken EmailManager test_runtime test_env (net_script [reply 401 ''denied''])
         50000 (warm ''T1'' 100000)))
       = \<lparr>token = JStr ''T1'', expiresAt = Num 100000\<rparr>
   \<and> fresh (tokenCache (warm ''T1'' 100000)) 0
   \<and> fst (getToken EmailManager test_runtime test_env (net_script []) 0
        (snd (getToken EmailManager test_runtime test_env (net_script [reply 401 ''denied''])
           50000 (warm ''T1'' 100000))))
       = Inr (JStr ''T1'')
   \<and> (50000::int) \<le> 50001
   \<and> length (log (snd (getToken EmailManager test_runtime test_env (net_script []) 50001
        (snd (getToken EmailManager test_runtime test_env (net_script [reply 401 ''denied''])
           50000 (warm ''T1'' 100000))))))
       = 2"
proof -
  have stale: "\<not> fresh (tokenCache (warm ''T1'' 100000)) 50000"
    by (simp add: warm_def fresh_def)
  have creds: "\<not> credentials_missing EmailManager test_env"
    by (simp add: credentials_missing_def)
  have answer: "net_script [reply 401 ''denied''] (log (warm ''T1'' 100000))
        (token_request EmailManager test_runtime test_env)
        = Inr \<lparr>status = 401, statusText = [], body_text = ''denied''\<rparr>"
    by (simp add: net_script_def warm_def reply_def)
  have bad: "\<not> ok \<lparr>status = 401, statusText = [], body_text = ''denied''\<rparr>"
    by (simp add: ok_def)
  have early: "fresh (tokenCache (warm ''T1'' 100000)) 0"
    by (simp add: warm_def fresh_def)
  have order: "(50000::int) \<le> 50001"
    by simp
  have cache: "tokenCache (warm ''T1'' 100000) = \<lparr>token = JStr ''T1'', expiresAt = Num 100000\<rparr>"
    and empty: "length (log (warm ''T1'' 100000)) = 0"
    by (simp_all add: warm_def)
  note inst = failed_exchange_keeps_cache
    [of "warm ''T1'' 100000" 50000 EmailManager test_env "net_script [reply 401 ''denied'']"
        test_runtime "\<lparr>status = 401, statusText = [], body_text = ''denied''\<rparr>",
     OF stale creds answer bad]
  from inst have kept: "tokenCache (snd (getToken EmailManager test_runtime test_env
         (net_script [reply 401 ''denied'']) 50000 (warm ''T1'' 100000)))
       = \<lparr>token = JStr ''T1'', expiresAt = Num 100000\<rparr>"
    unfolding cache by blast
  from inst early have "getToken EmailManager test_runtime test_env (net_script []) 0
        (snd (getToken EmailManager test_runtime test_env (net_script [reply 401 ''denied''])
           50000 (warm ''T1'' 100000)))
       = (Inr (token (tokenCache (warm ''T1'' 100000))),
          snd (getToken EmailManager test_runtime test_env (net_script [reply 401 ''denied''])
           50000 (warm ''T1'' 100000)))"
    by blast
  then have reuse: "fst (getToken EmailManager test_runtime test_env (net_script []) 0
        (snd (getToken EmailManager test_runtime test_env (net_script [reply 401 ''denied''])
           50000 (warm ''T1'' 100000))))
       = Inr (JStr ''T1'')"
    unfolding cache by simp
  from inst order have "length (log (snd (getToken EmailManager test_runtime test_env (net_script []) 50001
        (snd (getToken EmailManager test_runtime test_env (net_script [reply 401 ''denied''])
           50000 (warm ''T1'' 100000))))))
       = length (log (warm ''T1'' 100000)) + 2"
    by blast
  then have again: "length (log (snd (getToken EmailManager test_runtime test_env (net_script []) 50001
        (snd (getToken EmailManager test_runtime test_env (net_script [reply 401 ''denied''])
           50000 (warm ''T1'' 100000))))))
       = 2"
    unfolding empty by simp
  from stale creds answer bad kept early reuse order again show ?thesis
    by blast
qed
lemma test_runtime_parse: "JSON_parse test_runtime = test_parse"
  by (simp add: test_runtime_def)

lemma parse_empty_object: "test_parse ''{}'' = Some (JObj [])"
  by (simp add: test_parse_def tok_body_def msg_body_def)

lemma parse_msg: "test_parse msg_body = Some (JObj [(''id'', JStr ''m1'')])"
  by (simp add: test_parse_def tok_body_def msg_body_def)

lemma builder_fails_fast:
  "\<not> fresh (tokenCache w) now \<Longrightarrow> credentials_missing ReportBuilder e \<Longrightarrow>
   builder_getAccessToken rt e net now w =
     (Inl (Error ''Missing Azure AD credentials. Set AZURE_TENANT_ID, AZURE_CLIENT_ID, AZURE_CLIENT_SECRET in .env''), w)"
  by (auto simp: builder_getAccessToken_def credentials_missing_def)

lemma token_error_with_body:
  assumes "\<not> fresh (tokenCache w) now" and "\<not> credentials_missing sk e"
    and "net (log w) (token_request sk rt e) = Inr response" and "\<not> ok response"
    and "sk \<noteq> FabricApi"
  shows "\<exists>label. fst (getToken sk rt e net now w)
           = Inl (Error (label @ dec (status response) @ '' - '' @ body_text response))"
  using failed_exchange_result [of w now sk e net rt response] assms by (cases sk) auto

subsection \<open>C5: what the error of a failed exchange carries\<close>

text \<open>
  C5 holds for the email manager and the report builder: by \<open>token_error_with_body\<close>
  their error message ends with the status, a dash and the body text of the identity
  provider's response. The token function of skills/fabric-api throws
  \<^verbatim>\<open>Token error: <status>\<close> only. Evaluated on a cold cache against a 401, it gives the
  same error whatever the body says.
\<close>

theorem fabric_token_error_omits_body:
  "fst (fabric_getAccessToken test_runtime test_env (net_script [reply 401 ''invalid_client'']) 0 cold)
     = Inl (Error ''Token error: 401'')
   \<and> fst (fabric_getAccessToken test_runtime test_env (net_script [reply 401 ''expired_secret'']) 0 cold)
     = Inl (Error ''Token error: 401'')"
  by (simp add: fabric_getAccessToken_def fetch_def Let_def net_script_def reply_def cold_def
        init_cache_def fresh_def ok_def dec.simps)

subsection \<open>C6: missing credentials\<close>

text \<open>
  C6 holds for the report builder (\<open>builder_fails_fast\<close>: the error is raised and the
  state, exchange log included, is untouched). The email manager and skills/fabric-api have
  no such test. Evaluated with \<^verbatim>\<open>AZURE_CLIENT_ID\<close> unset, \<^verbatim>\<open>getGraphToken\<close> sends the
  token request with \<^verbatim>\<open>client_id=undefined\<close> and fails only on the identity provider's
  answer.
\<close>

theorem missing_credential_reaches_network:
  "AZURE_CLIENT_ID no_client_env = None
   \<and> getGraphToken test_runtime no_client_env (net_script [reply 400 ''bad request'']) 0 cold
     = (Inl (Error ''Graph token error: 400 - bad request''),
        cold\<lparr>log := [(graph_token_request test_runtime no_client_env, reply 400 ''bad request'')]\<rparr>)
   \<and> req_body (graph_token_request test_runtime no_client_env)
     = Some (URLSearchParams test_runtime
         [(''grant_type'', ''client_credentials''), (''client_id'', ''undefined''),
          (''client_secret'', ''secret''), (''scope'', ''https://graph.microsoft.com/.default'')])"
  by (simp add: getGraphToken_def fetch_def Let_def net_script_def reply_def cold_def
        init_cache_def fresh_def ok_def dec.simps no_client_env_def graph_token_request_def
        env_str_def)

lemma graphRequest_not_ok:
  assumes "getGraphToken rt e net now w = (Inr tok, w1)"
    and "net (log w1) (graph_api_request rt tok method path body) = Inr response"
    and "\<not> ok response"
  shows "graphRequest rt e net now method path body w =
           (Inl (Error (''Graph API error: '' @ dec (status response) @ '' - '' @ body_text response)),
            w1\<lparr>log := log w1 @ [(graph_api_request rt tok method path body, Inr response)]\<rparr>)"
  using assms by (simp add: graphRequest_def fetch_def Let_def)

lemma fabricApiRequest_not_ok:
  assumes "builder_getAccessToken rt e net now w = (Inr tok, w1)"
    and "net (log w1) (fabric_api_request rt tok method path body) = Inr response"
    and "\<not> ok response"
  shows "fabricApiRequest rt e net now method path body w =
           (Inl (Error (''Fabric API error: '' @ dec (status response) @ '' - '' @ body_text response)),
            w1\<lparr>log := log w1 @ [(fabric_api_request rt tok method path body, Inr response)]\<rparr>)"
  using assms by (simp add: fabricApiRequest_def fetch_def Let_def)

lemma fabric_api_call_any_status:
  assumes "fabric_getAccessToken rt e net now w = (Inr tok, w1)"
    and "fabric_call_request rt tok method path body = Inr req"
    and "net (log w1) req = Inr response"
    and "parse_or_null rt (body_text response) = Inr data"
  shows "fabric_api_call rt e net now method path body w =
           (Inr (JSON_pretty rt (JObj [(''status'', JNum (int (status response))),
                                       (''statusText'', JStr (statusText response)),
                                       (''data'', data)])),
            w1\<lparr>log := log w1 @ [(req, Inr response)]\<rparr>)"
  using assms by (simp add: fabric_api_call_def fetch_def Let_def)

subsection \<open>C3: a non-2xx answer of the target API\<close>

text \<open>
  C3, as stated, fails for \<^verbatim>\<open>fabric_api_call\<close>, which never tests \<^verbatim>\<open>response.ok\<close>:
  it reports the status as part of its result. On a 404 with body \<^verbatim>\<open>{}\<close> the call
  succeeds, and the body has been parsed.
\<close>

theorem fabric_api_call_returns_on_404:
  "fst (fabric_api_call test_runtime test_env (net_script [reply 404 ''{}'']) 0
          (JStr ''GET'') (JStr ''/workspaces/none'') JUndefined (warm ''T1'' 3600000))
     = Inr (JSON_pretty test_runtime
             (JObj [(''status'', JNum 404), (''statusText'', JStr []), (''data'', JObj [])]))"
  by (simp add: fabric_api_call_def fabric_getAccessToken_def fabric_call_request_def fetch_def
        Let_def net_script_def reply_def warm_def fresh_def parse_or_null_def
        test_runtime_parse parse_empty_object)

text \<open>
  C3, amended. Once the token is obtained, a non-2xx answer makes \<^verbatim>\<open>graphRequest\<close> and
  \<^verbatim>\<open>fabricApiRequest\<close> fail with an error whose message is the module's label, the
  status, a dash and the raw body text; the body is not parsed (the result is this error
  for every runtime, also one whose \<^verbatim>\<open>JSON.parse\<close> rejects the body).
  \<^verbatim>\<open>fabric_api_call\<close> does not fail on a non-2xx answer: whatever the status, when the
  body is empty or parses it returns the status, the status text and the parsed body
  (\<^verbatim>\<open>null\<close> for an empty one).
\<close>

theorem api_error_carries_status_and_text:
  "(getGraphToken rt e net now w = (Inr tok, w1)
      \<and> net (log w1) (graph_api_request rt tok method path body) = Inr response
      \<and> \<not> ok response
    \<longrightarrow> graphRequest rt e net now method path body w =
           (Inl (Error (''Graph API error: '' @ dec (status response) @ '' - '' @ body_text response)),
            w1\<lparr>log := log w1 @ [(graph_api_request rt tok method path body, Inr response)]\<rparr>))
   \<and> (builder_getAccessToken rt e net now w = (Inr tok, w1)
      \<and> net (log w1) (fabric_api_request rt tok method path body) = Inr response
      \<and> \<not> ok response
    \<longrightarrow> fabricApiRequest rt e net now method path body w =
           (Inl (Error (''Fabric API error: '' @ dec (status response) @ '' - '' @ body_text response)),
            w1\<lparr>log := log w1 @ [(fabric_api_request rt tok method path body, Inr response)]\<rparr>))
   \<and> (fabric_getAccessToken rt e net now w = (Inr tok, w1)
      \<and> fabric_call_request rt tok m p b = Inr req
      \<and> net (log w1) req = Inr response
      \<and> parse_or_null rt (body_text response) = Inr data
    \<longrightarrow> fabric_api_call rt e net now m p b w =
           (Inr (JSON_pretty rt (JObj [(''status'', JNum (int (status response))),
                                       (''statusText'', JStr (statusText response)),
                                       (''data'', data)])),
            w1\<lparr>log := log w1 @ [(req, Inr response)]\<rparr>))"
  using graphRequest_not_ok [of rt e net now w tok w1 "method" "path" body response]
    fabricApiRequest_not_ok [of rt e net now w tok w1 "method" "path" body response]
    fabric_api_call_any_status [of rt e net now w tok w1 m p b req response data]
  by blast

theorem api_error_carries_status_and_text_witness:
  "getGraphToken test_runtime test_env (net_script [reply 404 ''not found'']) 0 (warm ''T1'' 3600000)
     = (Inr (JStr ''T1''), warm ''T1'' 3600000)
   \<and> builder_getAccessToken test_runtime test_env (net_script [reply 404 ''not found'']) 0 (warm ''T1'' 3600000)
     = (Inr (JStr ''T1''), warm ''T1'' 3600000)
   \<and> fabric_getAccessToken test_runtime test_env (net_script [reply 404 ''{}'']) 0 (warm ''T1'' 3600000)
     = (Inr (JStr ''T1''), warm ''T1'' 3600000)
   \<and> \<not> ok \<lparr>status = 404, statusText = [], body_text = ''not found''\<rparr>
   \<and> parse_or_null test_runtime (body_text \<lparr>status = 404, statusText = [], body_text = ''{}''\<rparr>)
     = Inr (JObj [])
   \<and> fst (graphRequest test_runtime test_env (net_script [reply 404 ''not found'']) 0
          ''GET'' ''/foo'' JUndefined (warm ''T1'' 3600000))
     = Inl (Error ''Graph API error: 404 - not found'')
   \<and> fst (fabricApiRequest test_runtime test_env (net_script [reply 404 ''not found'']) 0
          ''GET'' ''/foo'' JUndefined (warm ''T1'' 3600000))
     = Inl (Error ''Fabric API error: 404 - not found'')
   \<and> fst (fabric_api_call test_runtime test_env (net_script [reply 404 ''{}'']) 0
          (JStr ''GET'') (JStr ''/foo'') JUndefined (warm ''T1'' 3600000))
     = Inr (JSON_pretty test_runtime
             (JObj [(''status'', JNum 404), (''statusText'', JStr []), (''data'', JObj [])]))"
proof -
  let ?w = "warm ''T1'' 3600000"
  let ?r = "\<lparr>status = 404, statusText = [], body_text = ''not found''\<rparr>"
  let ?r' = "\<lparr>status = 404, statusText = [], body_text = ''{}''\<rparr>"
  let ?req = "\<lparr>req_url = ''https://api.fabric.microsoft.com/v1/foo'', req_method = ''GET'',
               req_headers = [(''Authorization'', ''Bearer T1''), (''Content-Type'', ''application/json'')],
               req_body = None\<rparr>"
  have fresh: "fresh (tokenCache ?w) 0"
    by (simp add: warm_def fresh_def)
  have t1: "getGraphToken test_runtime test_env (net_script [reply 404 ''not found'']) 0 ?w
              = (Inr (JStr ''T1''), ?w)"
    and t2: "builder_getAccessToken test_runtime test_env (net_script [reply 404 ''not found'']) 0 ?w
              = (Inr (JStr ''T1''), ?w)"
    and t3: "fabric_getAccessToken test_runtime test_env (net_script [reply 404 ''{}'']) 0 ?w
              = (Inr (JStr ''T1''), ?w)"
    using fresh by (simp_all add: token_defs) (simp_all add: warm_def)
  have n1: "net_script [reply 404 ''not found''] (log ?w)
              (graph_api_request test_runtime (JStr ''T1'') ''GET'' ''/foo'' JUndefined) = Inr ?r"
    and n2: "net_script [reply 404 ''not found''] (log ?w)
              (fabric_api_request test_runtime (JStr ''T1'') ''GET'' ''/foo'' JUndefined) = Inr ?r"
    and n3: "net_script [reply 404 ''{}''] (log ?w) ?req = Inr ?r'"
    by (simp_all add: net_script_def warm_def reply_def)
  have bad: "\<not> ok ?r"
    by (simp add: ok_def)
  have req: "fabric_call_request test_runtime (JStr ''T1'') (JStr ''GET'') (JStr ''/foo'') JUndefined
               = Inr ?req"
    by (simp add: fabric_call_request_def test_runtime_def)
  have data: "parse_or_null test_runtime (body_text ?r') = Inr (JObj [])"
    by (simp add: parse_or_null_def test_runtime_parse parse_empty_object)
  note a = api_error_carries_status_and_text
    [of test_runtime test_env "net_script [reply 404 ''not found'']" 0 ?w "JStr ''T1''" ?w
        "''GET''" "''/foo''" JUndefined ?r]
  note b = api_error_carries_status_and_text
    [of test_runtime test_env "net_script [reply 404 ''{}'']" 0 ?w "JStr ''T1''" ?w
        _ _ _ ?r' "JStr ''GET''" "JStr ''/foo''" JUndefined ?req "JObj []"]
  from a t1 n1 bad have c1: "fst (graphRequest test_runtime test_env (net_script [reply 404 ''not found'']) 0
          ''GET'' ''/foo'' JUndefined ?w) = Inl (Error ''Graph API error: 404 - not found'')"
    by (simp add: dec.simps)
  from a t2 n2 bad have c2: "fst (fabricApiRequest test_runtime test_env (net_script [reply 404 ''not found'']) 0
          ''GET'' ''/foo'' JUndefined ?w) = Inl (Error ''Fabric API error: 404 - not found'')"
    by (simp add: dec.simps)
  from b t3 req n3 data have c3: "fst (fabric_api_call test_runtime test_env (net_script [reply 404 ''{}'']) 0
          (JStr ''GET'') (JStr ''/foo'') JUndefined ?w)
     = Inr (JSON_pretty test_runtime
             (JObj [(''status'', JNum 404), (''statusText'', JStr []), (''data'', JObj [])]))"
    by simp
  from t1 t2 t3 bad data c1 c2 c3 show ?thesis
    by blast
qed

lemma graphRequest_empty_body:
  assumes "getGraphToken rt e net now w = (Inr tok, w1)"
    and "net (log w1) (graph_api_request rt tok method path body) = Inr response"
    and "ok response" and "body_text response = []"
  shows "graphRequest rt e net now method path body w =
           (Inr JNull, w1\<lparr>log := log w1 @ [(graph_api_request rt tok method path body, Inr response)]\<rparr>)"
  using assms by (simp add: graphRequest_def fetch_def Let_def parse_or_null_def)

lemma fabricApiRequest_empty_body:
  assumes "builder_getAccessToken rt e net now w = (Inr tok, w1)"
    and "net (log w1) (fabric_api_request rt tok method path body) = Inr response"
    and "ok response" and "body_text response = []"
  shows "fabricApiRequest rt e net now method path body w =
           (Inr JNull, w1\<lparr>log := log w1 @ [(fabric_api_request rt tok method path body, Inr response)]\<rparr>)"
  using assms by (simp add: fabricApiRequest_def fetch_def Let_def parse_or_null_def)

subsection \<open>C7: a successful answer with an empty body\<close>

text \<open>
  C7. Once the token is obtained, a 2xx answer with a body of length zero makes
  \<^verbatim>\<open>graphRequest\<close> and \<^verbatim>\<open>fabricApiRequest\<close> return \<^verbatim>\<open>null\<close>; \<^verbatim>\<open>JSON.parse\<close> is
  not consulted, so no parse error can arise.
\<close>

theorem empty_success_body_is_null:
  "(getGraphToken rt e net now w = (Inr tok, w1)
      \<and> net (log w1) (graph_api_request rt tok method path body) = Inr response
      \<and> ok response \<and> body_text response = []
    \<longrightarrow> graphRequest rt e net now method path body w =
           (Inr JNull, w1\<lparr>log := log w1 @ [(graph_api_request rt tok method path body, Inr response)]\<rparr>))
   \<and> (builder_getAccessToken rt e net now w = (Inr tok, w1)
      \<and> net (log w1) (fabric_api_request rt tok method path body) = Inr response
      \<and> ok response \<and> body_text response = []
    \<longrightarrow> fabricApiRequest rt e net now method path body w =
           (Inr JNull, w1\<lparr>log := log w1 @ [(fabric_api_request rt tok method path body, Inr response)]\<rparr>))"
  using graphRequest_empty_body [of rt e net now w tok w1 "method" "path" body response]
    fabricApiRequest_empty_body [of rt e net now w tok w1 "method" "path" body response]
  by blast

theorem empty_success_body_is_null_witness:
  "getGraphToken test_runtime test_env (net_script [reply 204 []]) 0 (warm ''T1'' 3600000)
     = (Inr (JStr ''T1''), warm ''T1'' 3600000)
   \<and> builder_getAccessToken test_runtime test_env (net_script [reply 204 []]) 0 (warm ''T1'' 3600000)
     = (Inr (JStr ''T1''), warm ''T1'' 3600000)
   \<and> ok \<lparr>status = 204, statusText = [], body_text = []\<rparr>
   \<and> fst (graphRequest test_runtime test_env (net_script [reply 204 []]) 0
          ''PATCH'' ''/foo'' (JObj [(''isRead'', JBool True)]) (warm ''T1'' 3600000))
     = Inr JNull
   \<and> fst (fabricApiRequest test_runtime test_env (net_script [reply 204 []]) 0
          ''PATCH'' ''/foo'' (JObj [(''isRead'', JBool True)]) (warm ''T1'' 3600000))
     = Inr JNull"
proof -
  let ?w = "warm ''T1'' 3600000"
  let ?r = "\<lparr>status = 204, statusText = [], body_text = []\<rparr>"
  let ?b = "JObj [(''isRead'', JBool True)]"
  have fresh: "fresh (tokenCache ?w) 0"
    by (simp add: warm_def fresh_def)
  have t1: "getGraphToken test_runtime test_env (net_script [reply 204 []]) 0 ?w
              = (Inr (JStr ''T1''), ?w)"
    and t2: "builder_getAccessToken test_runtime test_env (net_script [reply 204 []]) 0 ?w
              = (Inr (JStr ''T1''), ?w)"
    using fresh by (simp_all add: token_defs) (simp_all add: warm_def)
  have n1: "net_script [reply 204 []] (log ?w)
              (graph_api_request test_runtime (JStr ''T1'') ''PATCH'' ''/foo'' ?b) = Inr ?r"
    and n2: "net_script [reply 204 []] (log ?w)
              (fabric_api_request test_runtime (JStr ''T1'') ''PATCH'' ''/foo'' ?b) = Inr ?r"
    by (simp_all add: net_script_def warm_def reply_def)
  have good: "ok ?r" and empty: "body_text ?r = []"
    by (simp_all add: ok_def)
  note a = empty_success_body_is_null
    [of test_runtime test_env "net_script [reply 204 []]" 0 ?w "JStr ''T1''" ?w
        "''PATCH''" "''/foo''" ?b ?r]
  from a t1 n1 good empty have c1: "fst (graphRequest test_runtime test_env (net_script [reply 204 []]) 0
          ''PATCH'' ''/foo'' ?b ?w) = Inr JNull"
    by simp
  from a t2 n2 good empty have c2: "fst (fabricApiRequest test_runtime test_env (net_script [reply 204 []]) 0
          ''PATCH'' ''/foo'' ?b ?w) = Inr JNull"
    by simp
  from t1 t2 good c1 c2 show ?thesis
    by blast
qed
lemma format_m1: "format_email test_runtime (JObj [(''id'', JStr ''m1'')]) = Inr m1_formatted"
  by (simp add: format_email_def addresses_def js_or_def stripHtml_def test_runtime_def
        m1_formatted_def)

subsection \<open>C8: the mark-as-read call of \<^verbatim>\<open>read_email\<close>\<close>

text \<open>
  C8. Once the GET of \<^verbatim>\<open>read_email\<close> has returned a message from which
  \<^verbatim>\<open>formatted\<close> is built, the result of \<^verbatim>\<open>read_email\<close> is the rendering of
  \<^verbatim>\<open>formatted\<close>, whatever the PATCH call does; in particular, when the PATCH call fails
  with any error, \<^verbatim>\<open>read_email\<close> still returns that rendering and raises nothing.
\<close>

theorem mark_read_failure_is_swallowed:
  assumes "graphRequest rt e net now1 ''GET'' (read_email_path e message_id) JUndefined w = (Inr msg, w1)"
    and "format_email rt msg = Inr formatted"
  shows "fst (read_email rt e net now1 now2 message_id w) = Inr (JSON_pretty rt formatted)
       \<and> (\<forall>err w2.
            graphRequest rt e net now2 ''PATCH'' (mark_read_path e message_id)
              (JObj [(''isRead'', JBool True)]) w1 = (Inl err, w2)
            \<longrightarrow> read_email rt e net now1 now2 message_id w = (Inr (JSON_pretty rt formatted), w2))"
  using assms by (simp add: read_email_def split: prod.splits)

theorem mark_read_failure_is_swallowed_witness:
  "fst (graphRequest test_runtime test_env (net_script [reply 200 msg_body, reply 500 ''boom'']) 0
          ''GET'' (read_email_path test_env (JStr ''m1'')) JUndefined (warm ''T1'' 3600000))
     = Inr (JObj [(''id'', JStr ''m1'')])
   \<and> format_email test_runtime (JObj [(''id'', JStr ''m1'')]) = Inr m1_formatted
   \<and> fst (graphRequest test_runtime test_env (net_script [reply 200 msg_body, reply 500 ''boom'']) 1
          ''PATCH'' (mark_read_path test_env (JStr ''m1'')) (JObj [(''isRead'', JBool True)])
          (snd (graphRequest test_runtime test_env (net_script [reply 200 msg_body, reply 500 ''boom'']) 0
             ''GET'' (read_email_path test_env (JStr ''m1'')) JUndefined (warm ''T1'' 3600000))))
     = Inl (Error ''Graph API error: 500 - boom'')
   \<and> fst (read_email test_runtime test_env (net_script [reply 200 msg_body, reply 500 ''boom'']) 0 1
          (JStr ''m1'') (warm ''T1'' 3600000))
     = Inr (JSON_pretty test_runtime m1_formatted)"
proof -
  let ?net = "net_script [reply 200 msg_body, reply 500 ''boom'']"
  let ?w = "warm ''T1'' 3600000"
  let ?get = "graphRequest test_runtime test_env ?net 0 ''GET''
                (read_email_path test_env (JStr ''m1'')) JUndefined ?w"
  have got: "fst ?get = Inr (JObj [(''id'', JStr ''m1'')])"
    by (simp add: graphRequest_def getGraphToken_def fetch_def Let_def net_script_def reply_def
          warm_def fresh_def ok_def parse_or_null_def test_runtime_parse parse_msg)
       (simp add: msg_body_def)
  then have get: "?get = (Inr (JObj [(''id'', JStr ''m1'')]), snd ?get)"
    by (simp add: prod_eq_iff)
  have patch: "fst (graphRequest test_runtime test_env ?net 1 ''PATCH''
          (mark_read_path test_env (JStr ''m1'')) (JObj [(''isRead'', JBool True)]) (snd ?get))
     = Inl (Error ''Graph API error: 500 - boom'')"
    by (simp add: graphRequest_def getGraphToken_def fetch_def Let_def net_script_def reply_def
          warm_def fresh_def ok_def parse_or_null_def test_runtime_parse parse_msg dec.simps)
  from mark_read_failure_is_swallowed [OF get format_m1, of 1]
  have "fst (read_email test_runtime test_env ?net 0 1 (JStr ''m1'') ?w)
          = Inr (JSON_pretty test_runtime m1_formatted)"
    by blast
  with got format_m1 patch show ?thesis
    by blast
qed

lemma top_of_bound: "top_of rt count = Num n \<Longrightarrow> n \<le> 50"
  by (cases "ToNumber rt (js_or count (JNum 10))") (auto simp: top_of_def)

lemma top_of_default:
  "count = JUndefined \<or> count = JNull \<or> count = JNum 0 \<Longrightarrow> top_of rt count = Num 10"
  by (auto simp: top_of_def js_or_def)

lemma top_of_number: "n \<noteq> 0 \<Longrightarrow> top_of rt (JNum n) = Num (min n 50)"
  by (simp add: top_of_def js_or_def)

lemma read_inbox_exchange:
  "getGraphToken rt e net now w = (Inr tok, w1) \<Longrightarrow>
   log (snd (read_inbox rt e net now count unread_only w))
     = log w1 @ [(graph_api_request rt tok ''GET'' (read_inbox_path rt e count unread_only) JUndefined,
                  net (log w1)
                    (graph_api_request rt tok ''GET'' (read_inbox_path rt e count unread_only) JUndefined))]"
  by (simp add: read_inbox_def graphRequest_def fetch_def Let_def split: sum.splits prod.splits)

lemma search_emails_exchange:
  "getGraphToken rt e net now w = (Inr tok, w1) \<Longrightarrow>
   log (snd (search_emails rt e net now query count w))
     = log w1 @ [(graph_api_request rt tok ''GET'' (search_emails_path rt e query count) JUndefined,
                  net (log w1)
                    (graph_api_request rt tok ''GET'' (search_emails_path rt e query count) JUndefined))]"
  by (simp add: search_emails_def graphRequest_def fetch_def Let_def split: sum.splits prod.splits)

subsection \<open>C10: at most 50 messages are requested\<close>

text \<open>
  C10. For every \<open>count\<close>, the number \<open>top\<close> that \<^verbatim>\<open>read_inbox\<close> and
  \<^verbatim>\<open>search_emails\<close> compute is never a number above 50; a missing, \<^verbatim>\<open>null\<close> or zero
  \<open>count\<close> gives 10, and any other number \<open>n\<close> gives \<open>min n 50\<close>. Once the token is
  obtained, the one request each of them sends to the API carries that number as
  \<^verbatim>\<open>$top\<close>.
\<close>

theorem message_count_is_capped:
  "(\<forall>n. top_of rt count = Num n \<longrightarrow> n \<le> 50)
   \<and> (count = JUndefined \<or> count = JNull \<or> count = JNum 0 \<longrightarrow> top_of rt count = Num 10)
   \<and> (\<forall>n. count = JNum n \<and> n \<noteq> 0 \<longrightarrow> top_of rt count = Num (min n 50))
   \<and> (\<forall>tok w1. getGraphToken rt e net now w = (Inr tok, w1) \<longrightarrow>
        (\<exists>answer. log (snd (read_inbox rt e net now count unread_only w)) = log w1 @
           [(\<lparr>req_url = ''https://graph.microsoft.com/v1.0/users/'' @ EMAIL_USER e
                 @ ''/messages?$top='' @ num_str (top_of rt count)
                 @ ''&$orderby=receivedDateTime desc&$select=id,subject,from,receivedDateTime,isRead,bodyPreview,hasAttachments''
                 @ (if truthy unread_only then ''&$filter=isRead eq false'' else []),
               req_method = ''GET'',
               req_headers = [(''Authorization'', ''Bearer '' @ ToString tok),
                              (''Content-Type'', ''application/json'')],
               req_body = None\<rparr>, answer)])
      \<and> (\<exists>answer. log (snd (search_emails rt e net now query count w)) = log w1 @
           [(\<lparr>req_url = ''https://graph.microsoft.com/v1.0/users/'' @ EMAIL_USER e
                 @ ''/messages?$search='' @ [CHR 0x22] @ encodeURIComponent rt (ToString query)
                 @ [CHR 0x22] @ ''&$top='' @ num_str (top_of rt count)
                 @ ''&$select=id,subject,from,receivedDateTime,isRead,bodyPreview,hasAttachments'',
               req_method = ''GET'',
               req_headers = [(''Authorization'', ''Bearer '' @ ToString tok),
                              (''Content-Type'', ''application/json'')],
               req_body = None\<rparr>, answer)]))"
proof (intro conjI allI impI)
  fix n assume "top_of rt count = Num n" then show "n \<le> 50" by (rule top_of_bound)
next
  assume "count = JUndefined \<or> count = JNull \<or> count = JNum 0"
  then show "top_of rt count = Num 10" by (rule top_of_default)
next
  fix n assume "count = JNum n \<and> n \<noteq> 0"
  then show "top_of rt count = Num (min n 50)" by (simp add: top_of_number)
next
  fix tok w1 assume t: "getGraphToken rt e net now w = (Inr tok, w1)"
  show "\<exists>answer. log (snd (read_inbox rt e net now count unread_only w)) = log w1 @
           [(\<lparr>req_url = ''https://graph.microsoft.com/v1.0/users/'' @ EMAIL_USER e
                 @ ''/messages?$top='' @ num_str (top_of rt count)
                 @ ''&$orderby=receivedDateTime desc&$select=id,subject,from,receivedDateTime,isRead,bodyPreview,hasAttachments''
                 @ (if truthy unread_only then ''&$filter=isRead eq false'' else []),
               req_method = ''GET'',
               req_headers = [(''Authorization'', ''Bearer '' @ ToString tok),
                              (''Content-Type'', ''application/json'')],
               req_body = None\<rparr>, answer)]"
    unfolding read_inbox_exchange [OF t]
    by (simp add: graph_api_request_def read_inbox_path_def)
next
  fix tok w1 assume t: "getGraphToken rt e net now w = (Inr tok, w1)"
  show "\<exists>answer. log (snd (search_emails rt e net now query count w)) = log w1 @
           [(\<lparr>req_url = ''https://graph.microsoft.com/v1.0/users/'' @ EMAIL_USER e
                 @ ''/messages?$search='' @ [CHR 0x22] @ encodeURIComponent rt (ToString query)
                 @ [CHR 0x22] @ ''&$top='' @ num_str (top_of rt count)
                 @ ''&$select=id,subject,from,receivedDateTime,isRead,bodyPreview,hasAttachments'',
               req_method = ''GET'',
               req_headers = [(''Authorization'', ''Bearer '' @ ToString tok),
                              (''Content-Type'', ''application/json'')],
               req_body = None\<rparr>, answer)]"
    unfolding search_emails_exchange [OF t]
    by (simp add: graph_api_request_def search_emails_path_def)
qed

theorem message_count_is_capped_witness:
  "top_of test_runtime (JNum 100) = Num 50
   \<and> top_of test_runtime (JNum 7) = Num 7
   \<and> top_of test_runtime JUndefined = Num 10
   \<and> top_of test_runtime (JNum 0) = Num 10
   \<and> getGraphToken test_runtime test_env (net_script [reply 200 ''{}'']) 0 (warm ''T1'' 3600000)
        = (Inr (JStr ''T1''), warm ''T1'' 3600000)
   \<and> map (\<lambda>x. req_url (fst x))
        (log (snd (read_inbox test_runtime test_env (net_script [reply 200 ''{}'']) 0
                     (JNum 100) JUndefined (warm ''T1'' 3600000))))
       = [''https://graph.microsoft.com/v1.0/users/fabio@sebit.cz/messages?$top=50&$orderby=receivedDateTime desc&$select=id,subject,from,receivedDateTime,isRead,bodyPreview,hasAttachments'']
   \<and> map (\<lambda>x. req_url (fst x))
        (log (snd (search_emails test_runtime test_env (net_script [reply 200 ''{}'']) 0
                     (JStr ''invoice'') (JNum 100) (warm ''T1'' 3600000))))
       = [''https://graph.microsoft.com/v1.0/users/fabio@sebit.cz/messages?$search='' @ [CHR 0x22]
          @ ''invoice'' @ [CHR 0x22]
          @ ''&$top=50&$select=id,subject,from,receivedDateTime,isRead,bodyPreview,hasAttachments'']"
proof -
  let ?w = "warm ''T1'' 3600000"
  let ?net = "net_script [reply 200 ''{}'']"
  note big = message_count_is_capped
    [where rt = test_runtime and count = "JNum 100" and e = test_env and net = ?net
       and now = 0 and w = ?w and unread_only = JUndefined and query = "JStr ''invoice''"]
  note small = message_count_is_capped [where rt = test_runtime and count = "JNum 7"]
  note missing = message_count_is_capped [where rt = test_runtime and count = JUndefined]
  note zero = message_count_is_capped [where rt = test_runtime and count = "JNum 0"]
  have tok: "getGraphToken test_runtime test_env ?net 0 ?w = (Inr (JStr ''T1''), ?w)"
    by (simp add: getGraphToken_def warm_def fresh_def)
  from big have "top_of test_runtime (JNum 100) = Num (min 100 50)"
    by simp
  then have c1: "top_of test_runtime (JNum 100) = Num 50"
    by simp
  from small have "top_of test_runtime (JNum 7) = Num (min 7 50)"
    by simp
  then have c2: "top_of test_runtime (JNum 7) = Num 7"
    by simp
  from missing have c3: "top_of test_runtime JUndefined = Num 10"
    by simp
  from zero have c4: "top_of test_runtime (JNum 0) = Num 10"
    by simp
  have user: "EMAIL_USER test_env = ''fabio@sebit.cz''"
    by (simp add: EMAIL_USER_def test_env_def env_set_def)
  have fifty: "num_str (Num 50) = ''50''"
    by (simp add: dec_int_def dec.simps)
  have empty: "log ?w = []"
    by (simp add: warm_def)
  have enc: "encodeURIComponent test_runtime (ToString (JStr ''invoice'')) = ''invoice''"
    by (simp add: test_runtime_def)
  from big tok have
    "(\<exists>answer. log (snd (read_inbox test_runtime test_env ?net 0 (JNum 100) JUndefined ?w)) = log ?w @
           [(\<lparr>req_url = ''https://graph.microsoft.com/v1.0/users/'' @ EMAIL_USER test_env
                 @ ''/messages?$top='' @ num_str (top_of test_runtime (JNum 100))
                 @ ''&$orderby=receivedDateTime desc&$select=id,subject,from,receivedDateTime,isRead,bodyPreview,hasAttachments''
                 @ (if truthy JUndefined then ''&$filter=isRead eq false'' else []),
               req_method = ''GET'',
               req_headers = [(''Authorization'', ''Bearer '' @ ToString (JStr ''T1'')),
                              (''Content-Type'', ''application/json'')],
               req_body = None\<rparr>, answer)])
      \<and> (\<exists>answer. log (snd (search_emails test_runtime test_env ?net 0 (JStr ''invoice'') (JNum 100) ?w)) = log ?w @
           [(\<lparr>req_url = ''https://graph.microsoft.com/v1.0/users/'' @ EMAIL_USER test_env
                 @ ''/messages?$search='' @ [CHR 0x22] @ encodeURIComponent test_runtime (ToString (JStr ''invoice''))
                 @ [CHR 0x22] @ ''&$top='' @ num_str (top_of test_runtime (JNum 100))
                 @ ''&$select=id,subject,from,receivedDateTime,isRead,bodyPreview,hasAttachments'',
               req_method = ''GET'',
               req_headers = [(''Authorization'', ''Bearer '' @ ToString (JStr ''T1'')),
                              (''Content-Type'', ''application/json'')],
               req_body = None\<rparr>, answer)])"
    by blast
  then have c5: "map (\<lambda>x. req_url (fst x))
        (log (snd (read_inbox test_runtime test_env ?net 0 (JNum 100) JUndefined ?w)))
       = [''https://graph.microsoft.com/v1.0/users/fabio@sebit.cz/messages?$top=50&$orderby=receivedDateTime desc&$select=id,subject,from,receivedDateTime,isRead,bodyPreview,hasAttachments'']"
    and c6: "map (\<lambda>x. req_url (fst x))
        (log (snd (search_emails test_runtime test_env ?net 0 (JStr ''invoice'') (JNum 100) ?w)))
       = [''https://graph.microsoft.com/v1.0/users/fabio@sebit.cz/messages?$search='' @ [CHR 0x22]
          @ ''invoice'' @ [CHR 0x22]
          @ ''&$top=50&$select=id,subject,from,receivedDateTime,isRead,bodyPreview,hasAttachments'']"
    unfolding c1 fifty user empty enc by auto
  from c1 c2 c3 c4 tok c5 c6 show ?thesis
    by blast
qed

subsection \<open>The token functions as runs of interleaved calls\<close>

text \<open>
  Every call of a token function, run alone, is a run of the interleaved model: the call
  is started, and resumed at each of its awaits with the answer the network gives. So the
  configurations that sequences of whole calls reach are reachable configurations.
\<close>

lemma rejected_exchange_result:
  assumes "\<not> fresh (tokenCache w) now" and "\<not> credentials_missing sk e"
    and "net (log w) (token_request sk rt e) = Inl err"
  shows "getToken sk rt e net now w =
     (Inl err, w\<lparr>log := log w @ [(token_request sk rt e, Inl err)]\<rparr>)"
  using assms by (cases sk) (simp_all add: token_defs)

lemma successful_exchange_result:
  assumes "\<not> fresh (tokenCache w) now" and "\<not> credentials_missing sk e"
    and "net (log w) (token_request sk rt e) = Inr response" and "ok response"
  shows "\<exists>res c'. on_json rt now response (tokenCache w) = (Settled res, c')
           \<and> getToken sk rt e net now w =
               (res, w\<lparr>log := log w @ [(token_request sk rt e, Inr response)], tokenCache := c'\<rparr>)"
  using assms
  by (cases sk) (auto simp: token_defs on_json_def split: option.splits sum.splits)

lemma getToken_is_a_run:
  assumes run: "getToken sk rt e net now w = (res, w')" and len: "length nows = length (log w)"
  shows "\<exists>nows'. length nows' = length (log w')
           \<and> rtranclp (step sk rt e) (conf_of w ts nows) (conf_of w' (ts @ [Settled res]) nows')"
proof -
  let ?req = "token_request sk rt e"
  let ?xs = "log w @ [(?req, net (log w) ?req)]"
  let ?h = "zip nows (log w)"
  let ?h' = "zip nows (log w) @ [(now, ?req, net (log w) ?req)]"
  have zipped: "zip (nows @ [now]) ?xs = ?h'"
    using len by simp
  have s1: "step sk rt e (conf_of w ts nows)
              \<lparr>shared_cache = tokenCache w, tasks = ts @ [on_call sk rt e (tokenCache w) now],
               exchanges = ?h\<rparr>"
    using step.call [of sk rt e "conf_of w ts nows" now] by (simp add: conf_of_def)
  consider (reuse) "fresh (tokenCache w) now"
    | (config) "\<not> fresh (tokenCache w) now" "credentials_missing sk e"
    | (exchange) "\<not> fresh (tokenCache w) now" "\<not> credentials_missing sk e"
    by blast
  then show ?thesis
  proof cases
    case reuse
    with run have "res = Inr (token (tokenCache w))" "w' = w"
      by (auto simp: fresh_returns)
    with reuse s1 have "rtranclp (step sk rt e) (conf_of w ts nows) (conf_of w' (ts @ [Settled res]) nows)"
      by (auto simp: on_call_def conf_of_def)
    with len \<open>w' = w\<close> show ?thesis
      by auto
  next
    case config
    then have "sk = ReportBuilder"
      by (simp add: credentials_missing_def)
    with config run have "res = Inl (Error ''Missing Azure AD credentials. Set AZURE_TENANT_ID, AZURE_CLIENT_ID, AZURE_CLIENT_SECRET in .env'')" "w' = w"
      by (auto simp: builder_fails_fast)
    with config s1 have "rtranclp (step sk rt e) (conf_of w ts nows) (conf_of w' (ts @ [Settled res]) nows)"
      by (auto simp: on_call_def conf_of_def)
    with len \<open>w' = w\<close> show ?thesis
      by auto
  next
    case exchange
    let ?c1 = "\<lparr>shared_cache = tokenCache w, tasks = ts @ [Awaiting_fetch now ?req],
                exchanges = ?h\<rparr>"
    let ?c2 = "\<lparr>shared_cache = tokenCache w, tasks = ts @ [on_fetch sk now (net (log w) ?req)],
                exchanges = ?h'\<rparr>"
    from exchange s1 have a: "step sk rt e (conf_of w ts nows) ?c1"
      by (simp add: on_call_def)
    have b: "step sk rt e ?c1 ?c2"
      using step.fetched [of "length ts" ?c1 now ?req sk rt e "net (log w) ?req"] by simp
    have "rtranclp (step sk rt e) (conf_of w ts nows) (conf_of w' (ts @ [Settled res]) (nows @ [now]))
          \<and> log w' = ?xs"
    proof (cases "net (log w) ?req")
      case (Inl err)
      with exchange run have "res = Inl err" "w' = w\<lparr>log := ?xs\<rparr>"
        by (auto simp: rejected_exchange_result)
      with a b Inl zipped show ?thesis
        by (auto simp: on_fetch_def conf_of_def)
    next
      case (Inr response)
      show ?thesis
      proof (cases "ok response")
        case False
        with exchange run Inr have r: "res = Inl (token_error sk response)" "w' = w\<lparr>log := ?xs\<rparr>"
          by (auto simp: failed_exchange_result)
        show ?thesis
        proof (cases "sk = FabricApi")
          case True
          with a b Inr False r zipped show ?thesis
            by (auto simp: on_fetch_def conf_of_def)
        next
          case other: False
          let ?c3 = "\<lparr>shared_cache = tokenCache w, tasks = ts @ [on_text sk response],
                      exchanges = ?h'\<rparr>"
          from b Inr False other have b': "step sk rt e ?c1
              \<lparr>shared_cache = tokenCache w, tasks = ts @ [Awaiting_text response], exchanges = ?h'\<rparr>"
            by (simp add: on_fetch_def)
          have c: "step sk rt e
              \<lparr>shared_cache = tokenCache w, tasks = ts @ [Awaiting_text response], exchanges = ?h'\<rparr> ?c3"
            using step.text_read [of "length ts"
              "\<lparr>shared_cache = tokenCache w, tasks = ts @ [Awaiting_text response], exchanges = ?h'\<rparr>"
              response sk rt e] by simp
          from a b' c r zipped show ?thesis
            by (auto simp: on_text_def conf_of_def)
        qed
      next
        case True
        with exchange Inr obtain r c' where
          j: "on_json rt now response (tokenCache w) = (Settled r, c')"
          and g: "getToken sk rt e net now w = (r, w\<lparr>log := ?xs, tokenCache := c'\<rparr>)"
          using successful_exchange_result [of w now sk e net rt response] by auto
        from g run have r: "res = r" "w' = w\<lparr>log := ?xs, tokenCache := c'\<rparr>"
          by auto
        from b Inr True have b': "step sk rt e ?c1
              \<lparr>shared_cache = tokenCache w, tasks = ts @ [Awaiting_json now response], exchanges = ?h'\<rparr>"
          by (simp add: on_fetch_def)
        have c: "step sk rt e
              \<lparr>shared_cache = tokenCache w, tasks = ts @ [Awaiting_json now response], exchanges = ?h'\<rparr>
              \<lparr>shared_cache = c', tasks = ts @ [Settled r], exchanges = ?h'\<rparr>"
          using step.json_read [of "length ts"
              "\<lparr>shared_cache = tokenCache w, tasks = ts @ [Awaiting_json now response], exchanges = ?h'\<rparr>"
              now response rt "Settled r" c' sk e] j by simp
        from a b' c r zipped show ?thesis
          by (auto simp: conf_of_def)
      qed
    qed
    then show ?thesis
      using len by (intro exI [of _ "nows @ [now]"]) simp
  qed
qed

lemma steps_keep_reachable:
  "rtranclp (step sk rt e) c c' \<Longrightarrow> reachable sk rt e c \<Longrightarrow> reachable sk rt e c'"
  by (induction rule: rtranclp_induct) (auto intro: reachable.after_step)

lemma getToken_keeps_reachable:
  assumes "reachable sk rt e (conf_of w ts nows)" and "length nows = length (log w)"
  shows "\<exists>nows'. length nows' = length (log (snd (getToken sk rt e net now w)))
           \<and> reachable sk rt e
               (conf_of (snd (getToken sk rt e net now w))
                  (ts @ [Settled (fst (getToken sk rt e net now w))]) nows')"
  using getToken_is_a_run [of sk rt e net now w "fst (getToken sk rt e net now w)"
          "snd (getToken sk rt e net now w)" nows ts] assms steps_keep_reachable
  by (metis prod.collapse)

subsection \<open>C9: the cache is replaced as a unit\<close>

lemma get_prop_opt_get: "get_prop v k = Inr x \<Longrightarrow> opt_get v k = x"
  by (cases v) auto

lemma paired_grows: "paired rt xs c \<Longrightarrow> paired rt (xs @ ys) c"
  by (auto simp: paired_def)

lemma waiting_ok_grows: "waiting_ok xs t \<Longrightarrow> waiting_ok (xs @ ys) t"
  by (cases t) (auto simp: waiting_ok_def)

lemma waiting_ok_on_call: "waiting_ok xs (on_call sk rt e c now)"
  by (simp add: on_call_def waiting_ok_def)

lemma waiting_ok_on_fetch: "waiting_ok (xs @ [(now, req, r)]) (on_fetch sk now r)"
  by (auto simp: on_fetch_def waiting_ok_def split: sum.splits)

lemma waiting_ok_on_text: "waiting_ok xs (on_text sk response)"
  by (simp add: on_text_def waiting_ok_def)

lemma on_json_keeps:
  assumes "on_json rt now response c = (t, c')"
    and "waiting_ok xs (Awaiting_json now response)"
    and "paired rt xs c"
  shows "paired rt xs c' \<and> waiting_ok xs t"
proof (cases "c' = c")
  case True
  with assms show ?thesis
    by (auto simp: on_json_def waiting_ok_def split: option.splits sum.splits)
next
  case False
  with assms(1) obtain data tok secs where
    d: "JSON_parse rt (body_text response) = Some data"
       "get_prop data ''access_token'' = Inr tok" "get_prop data ''expires_in'' = Inr secs"
       "c' = new_cache rt now tok secs" "t = Settled (Inr tok)"
    by (auto simp: on_json_def split: option.splits sum.splits)
  from assms(2) obtain req where r: "ok response" "(now, req, Inr response) \<in> set xs"
    by (auto simp: waiting_ok_def)
  from d have "cache_of rt now response c'"
    using r(1) by (simp add: cache_of_def get_prop_opt_get)
  with r(2) have "paired rt xs c'"
    by (auto simp: paired_def)
  with d(5) show ?thesis
    by (simp add: waiting_ok_def)
qed

lemma step_keeps_inv:
  assumes "step sk rt e c c'" and "conf_inv rt c"
  shows "conf_inv rt c'"
  using assms
proof (induction rule: step.induct)
  case (call c now)
  then show ?case
    by (auto simp: conf_inv_def waiting_ok_on_call)
next
  case (fetched i c now req r)
  have "set ((tasks c)[i := on_fetch sk now r]) \<subseteq> insert (on_fetch sk now r) (set (tasks c))"
    by (rule set_update_subset_insert)
  with fetched show ?case
    by (auto simp: conf_inv_def paired_grows waiting_ok_grows waiting_ok_on_fetch)
next
  case (text_read i c response)
  have "set ((tasks c)[i := on_text sk response]) \<subseteq> insert (on_text sk response) (set (tasks c))"
    by (rule set_update_subset_insert)
  with text_read show ?case
    by (auto simp: conf_inv_def waiting_ok_on_text)
next
  case (json_read i c now response t c')
  from json_read.hyps(1,2) have "Awaiting_json now response \<in> set (tasks c)"
    by (metis nth_mem)
  with json_read.prems have "waiting_ok (exchanges c) (Awaiting_json now response)"
    by (simp add: conf_inv_def)
  with json_read.hyps(3) json_read.prems
  have k: "paired rt (exchanges c) c' \<and> waiting_ok (exchanges c) t"
    using on_json_keeps [of rt now response "shared_cache c" t c' "exchanges c"]
    by (simp add: conf_inv_def)
  have "set ((tasks c)[i := t]) \<subseteq> insert t (set (tasks c))"
    by (rule set_update_subset_insert)
  with k json_read.prems show ?case
    by (auto simp: conf_inv_def)
qed

lemma on_json_mutation:
  assumes "on_json rt now response c = (t, c')"
  shows "c' = c \<or> (ok response \<longrightarrow> cache_of rt now response c')"
  using assms
  by (auto simp: on_json_def cache_of_def get_prop_opt_get split: option.splits sum.splits)

lemma step_mutation:
  assumes "step sk rt e c c'" and "conf_inv rt c"
  shows "shared_cache c' = shared_cache c
       \<or> (\<exists>now req response. (now, req, Inr response) \<in> set (exchanges c)
             \<and> cache_of rt now response (shared_cache c'))"
  using assms
proof (induction rule: step.induct)
  case (json_read i c now response t c')
  from json_read.hyps(1,2) have "Awaiting_json now response \<in> set (tasks c)"
    by (metis nth_mem)
  with json_read.prems have "waiting_ok (exchanges c) (Awaiting_json now response)"
    by (simp add: conf_inv_def)
  then obtain req where "ok response" "(now, req, Inr response) \<in> set (exchanges c)"
    by (auto simp: waiting_ok_def)
  with on_json_mutation [OF json_read.hyps(3)] show ?case
    by auto
qed simp_all

lemma reachable_inv: "reachable sk rt e c \<Longrightarrow> conf_inv rt c"
proof (induction rule: reachable.induct)
  case at_start
  show ?case
    by (simp add: conf_inv_def init_conf_def paired_def)
next
  case (after_step c c')
  then show ?case
    by (simp add: step_keeps_inv)
qed

lemma two_calls_pending_reachable: "reachable EmailManager test_runtime test_env two_calls_pending"
proof -
  let ?req = "graph_token_request test_runtime test_env"
  let ?r1 = "\<lparr>status = 200, statusText = [], body_text = tok_body ''T1'' 3600\<rparr>"
  let ?r2 = "\<lparr>status = 200, statusText = [], body_text = tok_body ''T2'' 3600\<rparr>"
  let ?c1 = "\<lparr>shared_cache = init_cache, tasks = [Awaiting_fetch 0 ?req], exchanges = []\<rparr>"
  let ?c2 = "\<lparr>shared_cache = init_cache, tasks = [Awaiting_fetch 0 ?req, Awaiting_fetch 5000 ?req],
              exchanges = []\<rparr>"
  let ?c3 = "\<lparr>shared_cache = init_cache, tasks = [Awaiting_json 0 ?r1, Awaiting_fetch 5000 ?req],
              exchanges = [(0, ?req, Inr ?r1)]\<rparr>"
  let ?c4 = "\<lparr>shared_cache = init_cache, tasks = [Awaiting_json 0 ?r1, Awaiting_json 5000 ?r2],
              exchanges = [(0, ?req, Inr ?r1), (5000, ?req, Inr ?r2)]\<rparr>"
  have stale: "\<not> fresh init_cache now" for now
    by (simp add: fresh_def init_cache_def)
  have creds: "\<not> credentials_missing EmailManager test_env"
    by (simp add: credentials_missing_def)
  have j2: "on_json test_runtime 5000 ?r2 init_cache
              = (Settled (Inr (JStr ''T2'')), \<lparr>token = JStr ''T2'', expiresAt = Num 3605000\<rparr>)"
    by (simp add: on_json_def test_runtime_parse parse_T2 tok_data_def new_cache_def)
  have "reachable EmailManager test_runtime test_env ?c1"
    using reachable.after_step
      [OF reachable.at_start step.call [of EmailManager test_runtime test_env init_conf 0]]
    by (simp add: init_conf_def on_call_def stale creds)
  from reachable.after_step [OF this step.call [of EmailManager test_runtime test_env ?c1 5000]]
  have "reachable EmailManager test_runtime test_env ?c2"
    by (simp add: on_call_def stale creds)
  from reachable.after_step
    [OF this step.fetched [of 0 ?c2 0 ?req EmailManager test_runtime test_env "Inr ?r1"]]
  have "reachable EmailManager test_runtime test_env ?c3"
    by (simp add: on_fetch_def ok_def)
  from reachable.after_step
    [OF this step.fetched [of 1 ?c3 5000 ?req EmailManager test_runtime test_env "Inr ?r2"]]
  have "reachable EmailManager test_runtime test_env ?c4"
    by (simp add: on_fetch_def ok_def)
  from reachable.after_step
    [OF this step.json_read [of 1 ?c4 5000 ?r2 test_runtime _ _ EmailManager test_env]] j2
  show ?thesis
    by (simp add: two_calls_pending_def reply_def)
qed

lemma two_calls_last_step: "step EmailManager test_runtime test_env two_calls_pending two_calls_done"
proof -
  let ?r1 = "\<lparr>status = 200, statusText = [], body_text = tok_body ''T1'' 3600\<rparr>"
  have j1: "on_json test_runtime 0 ?r1 \<lparr>token = JStr ''T2'', expiresAt = Num 3605000\<rparr>
              = (Settled (Inr (JStr ''T1'')), \<lparr>token = JStr ''T1'', expiresAt = Num 3600000\<rparr>)"
    by (simp add: on_json_def test_runtime_parse parse_T1 tok_data_def new_cache_def)
  from step.json_read [of 0 two_calls_pending 0 ?r1 test_runtime _ _ EmailManager test_env] j1
  show ?thesis
    by (simp add: two_calls_pending_def two_calls_done_def)
qed

lemma mismatched_pair_excluded:
  "\<not> paired test_runtime (exchanges two_calls_done) \<lparr>token = JStr ''T1'', expiresAt = Num 3605000\<rparr>"
  by (auto simp: paired_def two_calls_done_def init_cache_def cache_of_def reply_def
        test_runtime_parse parse_T1 parse_T2 tok_data_def new_cache_def)

text \<open>
  C9. In every configuration that interleaved calls of a module's token function can
  reach, the cache is the initial cache or its token and its expiry were both computed
  from one and the same exchange: the token is the \<^verbatim>\<open>access_token\<close> of its response, and
  the expiry is the clock reading of the call that received it plus a thousand times the
  \<^verbatim>\<open>expires_in\<close> of the same response. Every step from such a configuration leaves the
  cache as it is or replaces both fields by those computed from one exchange. (The
  pairing is not vacuous: by \<open>mismatched_pair_excluded\<close>, the token of one exchange with
  the expiry of the other is not \<open>paired\<close>.)
\<close>

theorem cache_fields_come_from_one_response:
  "reachable sk rt e c \<Longrightarrow>
   paired rt (exchanges c) (shared_cache c)
   \<and> (\<forall>c'. step sk rt e c c' \<longrightarrow>
         shared_cache c' = shared_cache c
         \<or> (\<exists>now req response. (now, req, Inr response) \<in> set (exchanges c)
               \<and> cache_of rt now response (shared_cache c')))"
  using reachable_inv [of sk rt e c] step_mutation [of sk rt e c]
  by (simp add: conf_inv_def)

theorem cache_fields_come_from_one_response_witness:
  "reachable EmailManager test_runtime test_env two_calls_pending
   \<and> step EmailManager test_runtime test_env two_calls_pending two_calls_done
   \<and> paired test_runtime (exchanges two_calls_pending) (shared_cache two_calls_pending)
   \<and> (shared_cache two_calls_done = shared_cache two_calls_pending
       \<or> (\<exists>now req response. (now, req, Inr response) \<in> set (exchanges two_calls_pending)
             \<and> cache_of test_runtime now response (shared_cache two_calls_done)))"
  using cache_fields_come_from_one_response [OF two_calls_pending_reachable]
    two_calls_pending_reachable two_calls_last_step
  by blast

subsection \<open>The first scenario of the specification\<close>

text \<open>
  The token endpoint issues \<^verbatim>\<open>T1\<close> for 3600 s at time 0. The call at 0 returns it after
  one exchange; the call at 1000 returns it with no further exchange; at 3540000 the token
  is no longer fresh, and at 3540001 a call exchanges again.
\<close>

lemma scenario_token_lifetime:
  "getGraphToken test_runtime test_env (issuing ''T1'' 3600) 0 cold = (Inr (JStr ''T1''), after_T1)
   \<and> length (log after_T1) = 1
   \<and> getGraphToken test_runtime test_env (net_script []) 1000 after_T1 = (Inr (JStr ''T1''), after_T1)
   \<and> fresh (tokenCache after_T1) 3539999
   \<and> \<not> fresh (tokenCache after_T1) 3540000
   \<and> length (log (snd (getGraphToken test_runtime test_env (net_script []) 3540001 after_T1))) = 2"
  by (simp add: getGraphToken_def fetch_def Let_def issuing_def net_script_def reply_def cold_def
        init_cache_def fresh_def ok_def test_runtime_parse parse_T1 tok_data_def new_cache_def
        after_T1_def)

end
